theory Spec2Isabelle
  imports Main "HOL-Library.Word" "HOL-Library.Sublist"
begin

section \<open>Kubernetes objects used by the add-on framework\<close>

text \<open>
  Byte slices are lists of octets (a nil slice and an empty slice are both the empty
  list, which is how \<^verbatim>\<open>equality.Semantic.DeepEqual\<close> compares them).  A point in
  time is a number of nanoseconds since the Unix epoch; \<^verbatim>\<open>time.Time{}\<close> is the
  first instant of year 1.
\<close>

type_synonym bytes = "8 word list"
type_synonym gotime = int

definition zeroTime :: gotime where
  "zeroTime = - 62135596800 * 1000000000"

text \<open>\<^verbatim>\<open>IsZero\<close> of \<^verbatim>\<open>metav1.Time\<close>: a nil pointer or the zero instant.\<close>

definition IsZero :: "gotime option \<Rightarrow> bool" where
  "IsZero t = (case t of None \<Rightarrow> True | Some x \<Rightarrow> x = zeroTime)"

text \<open>
  Go errors.  The API errors are told apart with \<^verbatim>\<open>errors.IsNotFound\<close> and
  \<^verbatim>\<open>errors.IsConflict\<close>; \<open>WorkStillDeleting\<close> is the \<^verbatim>\<open>fmt.Errorf\<close> of
  \<^verbatim>\<open>removeAddonResources\<close>; a run-time panic is an error value too.
\<close>

datatype error =
    NotFound
  | AlreadyExists
  | Conflict
  | WorkStillDeleting nat string
  | NilPointerDereference
  | Failure string

definition IsNotFound :: "error \<Rightarrow> bool" where
  "IsNotFound e = (e = NotFound)"

definition IsConflict :: "error \<Rightarrow> bool" where
  "IsConflict e = (e = Conflict)"

definition err_of :: "error + 'a \<Rightarrow> error option" where
  "err_of r = (case r of Inl e \<Rightarrow> Some e | Inr _ \<Rightarrow> None)"

text \<open>\<^verbatim>\<open>metav1.ObjectMeta\<close>, embedded in every object below.\<close>

record object_meta =
  Name :: string
  Namespace :: string
  Labels :: "string \<rightharpoonup> string"
  Annotations :: "string \<rightharpoonup> string"
  Finalizers :: "string list"
  DeletionTimestamp :: "gotime option"
  ResourceVersion :: nat

datatype condition_status = ConditionTrue | ConditionFalse | ConditionUnknown

text \<open>\<^verbatim>\<open>metav1.Condition\<close> (apimachinery v0.19).\<close>

record condition =
  Type :: string
  Status :: condition_status
  LastTransitionTime :: gotime
  Reason :: string
  Message :: string

text \<open>\<^verbatim>\<open>ManagedClusterAddOnStatus\<close> and \<^verbatim>\<open>ManagedClusterAddOn\<close>.\<close>

record addon_status =
  Conditions :: "condition list"
  RelatedObjects :: "string list"

record addon = object_meta +
  AddonStatus :: addon_status

text \<open>\<^verbatim>\<open>ManagedCluster\<close>: the lease duration is an \<^verbatim>\<open>int32\<close>.\<close>

record managed_cluster = object_meta +
  LeaseDurationSeconds :: "32 word"

text \<open>\<^verbatim>\<open>ClusterManagementAddOn\<close> with its \<^verbatim>\<open>Spec.AddOnConfiguration\<close>.\<close>

record cluster_management_addon = object_meta +
  CRDName :: string
  CRName :: string

text \<open>\<^verbatim>\<open>ManifestWork\<close>: \<open>Manifests\<close> holds the \<^verbatim>\<open>Raw\<close> bytes of each manifest of
  \<^verbatim>\<open>Spec.Workload.Manifests\<close>.\<close>

record manifest_work = object_meta +
  Manifests :: "bytes list"

text \<open>\<^verbatim>\<open>coordv1.Lease\<close>: \<^verbatim>\<open>Spec.RenewTime\<close> is a pointer and may be nil.\<close>

record lease = object_meta +
  HolderIdentity :: "string option"
  RenewTime :: "gotime option"

text \<open>\<^verbatim>\<open>certificatesv1.CertificateSigningRequest\<close>.\<close>

record csr_condition =
  CsrType :: string
  CsrStatus :: condition_status
  CsrReason :: string
  CsrMessage :: string

record csr = object_meta +
  Request :: bytes
  SignerName :: string
  Username :: string
  UID :: string
  Groups :: "string list"
  Extra :: "string \<rightharpoonup> string list"
  CsrConditions :: "csr_condition list"

text \<open>A \<^verbatim>\<open>runtime.Object\<close> handed over by an add-on: its kind, namespace and name.\<close>

datatype k8s_object = K8sObject string string string

section \<open>The API server and the informer caches\<close>

text \<open>\<^verbatim>\<open>authorizationv1.SubjectAccessReviewSpec\<close> as \<^verbatim>\<open>authorize\<close> fills it.\<close>

record subject_access_review =
  SarUser :: string
  SarUID :: string
  SarGroups :: "string list"
  SarExtra :: "string \<rightharpoonup> string list"
  SarGroup :: string
  SarResource :: string
  SarVerb :: string
  SarSubresource :: string

text \<open>The write calls a controller issues through its clients, as the fake clientsets
  of the tests record them.\<close>

datatype action =
    UpdateAddon string addon
  | UpdateAddonStatusAction string addon
  | CreateWork string manifest_work
  | UpdateWork string manifest_work
  | DeleteWork string string
  | CreateLease string lease
  | UpdateApproval string csr

text \<open>
  Modelled from the spec: the storage substrate is not part of the repository; section 1
  of the specification treats it as an API providing get, create, update and delete on
  typed objects with resource-versioned optimistic concurrency.  The listers read the
  informer caches, the clients read and change the stores, and every write call is
  appended to \<open>actions\<close>.  \<open>reviewAccess\<close> is the answer of the API server to a
  \<^verbatim>\<open>SubjectAccessReview\<close>.
\<close>

record world =
  clusterCache :: "managed_cluster list"
  addonCache :: "addon list"
  workCache :: "manifest_work list"
  leaseCache :: "lease list"
  configCache :: "(string \<times> string) list"
  addonStore :: "string \<times> string \<rightharpoonup> addon"
  clusterManagementStore :: "string \<rightharpoonup> cluster_management_addon"
  workStore :: "string \<times> string \<rightharpoonup> manifest_work"
  leaseStore :: "string \<times> string \<rightharpoonup> lease"
  csrStore :: "string \<rightharpoonup> csr"
  reviewAccess :: "subject_access_review \<Rightarrow> error + bool"
  actions :: "action list"

definition record_action :: "action \<Rightarrow> world \<Rightarrow> world" where
  "record_action a w = w\<lparr>actions := actions w @ [a]\<rparr>"

text \<open>Listers: a namespaced or cluster-scoped \<^verbatim>\<open>Get\<close> on a cache.\<close>

definition lister_get ::
  "('a object_meta_scheme) list \<Rightarrow> string \<Rightarrow> string \<Rightarrow> error + 'a object_meta_scheme" where
  "lister_get cache ns n =
     (case find (\<lambda>x. Namespace x = ns \<and> Name x = n) cache of
        None \<Rightarrow> Inl NotFound
      | Some x \<Rightarrow> Inr x)"

definition store_get :: "('k \<rightharpoonup> 'v) \<Rightarrow> 'k \<Rightarrow> error + 'v" where
  "store_get s k = (case s k of None \<Rightarrow> Inl NotFound | Some v \<Rightarrow> Inr v)"

text \<open>\<^verbatim>\<open>ManagedClusterAddOns(ns).Update\<close>: the status is a subresource and is kept.\<close>

definition addonUpdate :: "string \<Rightarrow> addon \<Rightarrow> world \<Rightarrow> (error + addon) \<times> world" where
  "addonUpdate ns a w =
     (let w1 = record_action (UpdateAddon ns a) w in
      case addonStore w (ns, Name a) of
        None \<Rightarrow> (Inl NotFound, w1)
      | Some old \<Rightarrow>
          if ResourceVersion a \<noteq> ResourceVersion old then (Inl Conflict, w1)
          else
            (let stored = a\<lparr>ResourceVersion := Suc (ResourceVersion old),
                            AddonStatus := AddonStatus old\<rparr>
             in (Inr stored, w1\<lparr>addonStore := (addonStore w1)((ns, Name a) \<mapsto> stored)\<rparr>)))"

text \<open>\<^verbatim>\<open>ManagedClusterAddOns(ns).UpdateStatus\<close>: only the status is taken over.\<close>

definition addonUpdateStatus :: "string \<Rightarrow> addon \<Rightarrow> world \<Rightarrow> (error + addon) \<times> world" where
  "addonUpdateStatus ns a w =
     (let w1 = record_action (UpdateAddonStatusAction ns a) w in
      case addonStore w (ns, Name a) of
        None \<Rightarrow> (Inl NotFound, w1)
      | Some old \<Rightarrow>
          if ResourceVersion a \<noteq> ResourceVersion old then (Inl Conflict, w1)
          else
            (let stored = old\<lparr>ResourceVersion := Suc (ResourceVersion old),
                              AddonStatus := AddonStatus a\<rparr>
             in (Inr stored, w1\<lparr>addonStore := (addonStore w1)((ns, Name a) \<mapsto> stored)\<rparr>)))"

text \<open>\<^verbatim>\<open>ManifestWorks(ns)\<close>: \<^verbatim>\<open>Create\<close>, \<^verbatim>\<open>Update\<close> and \<^verbatim>\<open>Delete\<close>.\<close>

definition workCreate ::
  "string \<Rightarrow> manifest_work \<Rightarrow> world \<Rightarrow> (error + manifest_work) \<times> world" where
  "workCreate ns wk w =
     (let w1 = record_action (CreateWork ns wk) w in
      case workStore w (ns, Name wk) of
        Some _ \<Rightarrow> (Inl AlreadyExists, w1)
      | None \<Rightarrow>
          (let stored = wk\<lparr>ResourceVersion := 1\<rparr>
           in (Inr stored, w1\<lparr>workStore := (workStore w1)((ns, Name wk) \<mapsto> stored)\<rparr>)))"

definition workUpdate ::
  "string \<Rightarrow> manifest_work \<Rightarrow> world \<Rightarrow> (error + manifest_work) \<times> world" where
  "workUpdate ns wk w =
     (let w1 = record_action (UpdateWork ns wk) w in
      case workStore w (ns, Name wk) of
        None \<Rightarrow> (Inl NotFound, w1)
      | Some old \<Rightarrow>
          if ResourceVersion wk \<noteq> ResourceVersion old then (Inl Conflict, w1)
          else
            (let stored = wk\<lparr>ResourceVersion := Suc (ResourceVersion old)\<rparr>
             in (Inr stored, w1\<lparr>workStore := (workStore w1)((ns, Name wk) \<mapsto> stored)\<rparr>)))"

definition workDelete :: "string \<Rightarrow> string \<Rightarrow> world \<Rightarrow> error option \<times> world" where
  "workDelete ns n w =
     (let w1 = record_action (DeleteWork ns n) w in
      case workStore w (ns, n) of
        None \<Rightarrow> (Some NotFound, w1)
      | Some _ \<Rightarrow> (None, w1\<lparr>workStore := (workStore w1)((ns, n) := None)\<rparr>))"

text \<open>\<^verbatim>\<open>workLister.ManifestWorks(ns).List(selector)\<close> with the selector
  \<^verbatim>\<open>key = value\<close>.\<close>

definition workLister_List :: "world \<Rightarrow> string \<Rightarrow> string \<Rightarrow> string \<Rightarrow> manifest_work list" where
  "workLister_List w ns key val =
     filter (\<lambda>wk. Namespace wk = ns \<and> Labels wk key = Some val) (workCache w)"

section \<open>Removing a finalizer\<close>

text \<open>
  The loop shared by \<^verbatim>\<open>removeAddonFinalizer\<close> and \<^verbatim>\<open>removeRegistrationFinalizer\<close>:
  every finalizer other than \<open>fin\<close> is appended to \<^verbatim>\<open>copiedFinalizers\<close>.
\<close>

fun copyFinalizers :: "string \<Rightarrow> string list \<Rightarrow> string list \<Rightarrow> string list" where
  "copyFinalizers fin copied [] = copied"
| "copyFinalizers fin copied (f # fs) =
     (if f = fin then copyFinalizers fin copied fs
      else copyFinalizers fin (copied @ [f]) fs)"

text \<open>\<^verbatim>\<open>pkg/addonmanager/agentdeploy/controller.go\<close>\<close>

definition AddonWorkLabel :: string where
  "AddonWorkLabel = ''open-cluster-management.io/addon-name''"

definition addonFinalizer :: string where
  "addonFinalizer = ''addon.open-cluster-management.io/work-cleanup''"

definition removeAddonFinalizer :: "addon \<Rightarrow> world \<Rightarrow> error option \<times> world" where
  "removeAddonFinalizer a w =
     (let copiedFinalizers = copyFinalizers addonFinalizer [] (Finalizers a) in
      if length (Finalizers a) \<noteq> length copiedFinalizers then
        (case addonUpdate (Namespace a) (a\<lparr>Finalizers := copiedFinalizers\<rparr>) w of
           (r, w') \<Rightarrow> (err_of r, w'))
      else (None, w))"

text \<open>\<^verbatim>\<open>pkg/addonmanager/registration/agentdeploy.go\<close>\<close>

definition registrationFinalizer :: string where
  "registrationFinalizer = ''addon.open-cluster-management.io/registration-cleanup''"

definition removeRegistrationFinalizer :: "addon \<Rightarrow> world \<Rightarrow> error option \<times> world" where
  "removeRegistrationFinalizer a w =
     (let copiedFinalizers = copyFinalizers registrationFinalizer [] (Finalizers a) in
      if length (Finalizers a) \<noteq> length copiedFinalizers then
        (case addonUpdate (Namespace a) (a\<lparr>Finalizers := copiedFinalizers\<rparr>) w of
           (r, w') \<Rightarrow> (err_of r, w'))
      else (None, w))"

section \<open>The deploy controller\<close>

text \<open>\<^verbatim>\<open>helpers.ManifestsEqual\<close>: the lengths, then the raw bytes index by index.\<close>

fun manifestsLoop :: "bytes list \<Rightarrow> bytes list \<Rightarrow> bool" where
  "manifestsLoop [] old = True"
| "manifestsLoop (n # new) [] = False"
| "manifestsLoop (n # new) (p # old) = (if n \<noteq> p then False else manifestsLoop new old)"

definition ManifestsEqual :: "bytes list \<Rightarrow> bytes list \<Rightarrow> bool" where
  "ManifestsEqual new old =
     (if length new \<noteq> length old then False else manifestsLoop new old)"

text \<open>
  The controller: its add-on name, the add-on's manifest supplier
  (\<^verbatim>\<open>agentAddon.AgentManifests\<close>), whether a configuration lister was set up (it is nil
  without a configuration GVR), and two library functions the source calls and the
  repository does not hold: \<^verbatim>\<open>runtime.Encode\<close> with the unstructured JSON scheme, and
  \<^verbatim>\<open>labels.NewRequirement\<close>, which refuses an invalid label key or value.
\<close>

record deploy_controller =
  deploy_addonName :: string
  AgentManifests :: "managed_cluster \<Rightarrow> (string \<times> string) option \<Rightarrow> k8s_object list \<times> error option"
  hasConfigLister :: bool
  Encode :: "k8s_object \<Rightarrow> error + bytes"
  NewRequirement :: "string \<Rightarrow> string \<Rightarrow> error option"

text \<open>The loop that looks for a finalizer and breaks at the first hit.\<close>

fun hasFinalizer :: "string \<Rightarrow> string list \<Rightarrow> bool" where
  "hasFinalizer fin [] = False"
| "hasFinalizer fin (f # fs) = (if f = fin then True else hasFinalizer fin fs)"

definition getAddonConfig ::
  "deploy_controller \<Rightarrow> world \<Rightarrow> string \<Rightarrow> string \<Rightarrow> string \<Rightarrow> error + (string \<times> string) option" where
  "getAddonConfig c w crdName crName clusterName =
     (if crdName = [] \<or> crName = [] then Inr None
      else if \<not> hasConfigLister c then Inl NilPointerDereference
      else
        (case find (\<lambda>(ns, n). ns = clusterName \<and> n = crName) (configCache w) of
           None \<Rightarrow> Inl NotFound
         | Some config \<Rightarrow> Inr (Some config)))"

fun encodeObjects ::
  "(k8s_object \<Rightarrow> error + bytes) \<Rightarrow> bytes list \<Rightarrow> k8s_object list \<Rightarrow> error + bytes list" where
  "encodeObjects enc ms [] = Inr ms"
| "encodeObjects enc ms (object # objects) =
     (case enc object of
        Inl e \<Rightarrow> Inl e
      | Inr rawObject \<Rightarrow> encodeObjects enc (ms @ [rawObject]) objects)"

definition buildManifestWorkFromObject ::
  "deploy_controller \<Rightarrow> string \<Rightarrow> k8s_object list \<Rightarrow> error + manifest_work option" where
  "buildManifestWorkFromObject c cluster objects =
     (let work = \<lparr>Name = ''addon-'' @ deploy_addonName c @ ''-deploy'',
                  Namespace = cluster,
                  Labels = [AddonWorkLabel \<mapsto> deploy_addonName c],
                  Annotations = Map.empty,
                  Finalizers = [],
                  DeletionTimestamp = None,
                  ResourceVersion = 0,
                  Manifests = []\<rparr>
      in if length objects = 0 then Inr None
         else
           (case encodeObjects (Encode c) (Manifests work) objects of
              Inl e \<Rightarrow> Inl e
            | Inr ms \<Rightarrow> Inr (Some (work\<lparr>Manifests := ms\<rparr>))))"

text \<open>The envelope \<^verbatim>\<open>buildManifestWorkFromObject\<close> returns for a payload.\<close>

definition deployWork :: "deploy_controller \<Rightarrow> string \<Rightarrow> bytes list \<Rightarrow> manifest_work" where
  "deployWork c cluster payload =
     \<lparr>Name = ''addon-'' @ deploy_addonName c @ ''-deploy'',
      Namespace = cluster,
      Labels = [AddonWorkLabel \<mapsto> deploy_addonName c],
      Annotations = Map.empty,
      Finalizers = [],
      DeletionTimestamp = None,
      ResourceVersion = 0,
      Manifests = payload\<rparr>"

text \<open>The delete loop of \<^verbatim>\<open>removeAddonResources\<close>; the result of each delete is dropped.\<close>

fun deleteWorks :: "string \<Rightarrow> manifest_work list \<Rightarrow> world \<Rightarrow> world" where
  "deleteWorks ns [] w = w"
| "deleteWorks ns (work # works) w =
     (if IsZero (DeletionTimestamp work)
      then deleteWorks ns works (snd (workDelete ns (Name work) w))
      else deleteWorks ns works w)"

definition removeAddonResources ::
  "deploy_controller \<Rightarrow> managed_cluster \<Rightarrow> world \<Rightarrow> error option \<times> world" where
  "removeAddonResources c cluster w =
     (case NewRequirement c AddonWorkLabel (deploy_addonName c) of
        Some e \<Rightarrow> (Some e, w)
      | None \<Rightarrow>
          (let works = workLister_List w (Name cluster) AddonWorkLabel (deploy_addonName c) in
           if length works = 0 then (None, w)
           else (Some (WorkStillDeleting (length works) (deploy_addonName c)),
                 deleteWorks (Name cluster) works w)))"

text \<open>\<^verbatim>\<open>addonDeployController.sync\<close>.  The error of the manifest supplier is
  overwritten by the next assignment, so only its objects are used.\<close>

definition addonDeployController_sync ::
  "deploy_controller \<Rightarrow> string \<Rightarrow> world \<Rightarrow> error option \<times> world" where
  "addonDeployController_sync c clusterName w =
     (case lister_get (clusterCache w) [] clusterName of
        Inl e \<Rightarrow> if IsNotFound e then (None, w) else (Some e, w)
      | Inr managedCluster \<Rightarrow>
     (case lister_get (addonCache w) clusterName (deploy_addonName c) of
        Inl e \<Rightarrow> if IsNotFound e then (None, w) else (Some e, w)
      | Inr managedClusterAddon \<Rightarrow>
     if IsZero (DeletionTimestamp managedClusterAddon)
        \<and> \<not> hasFinalizer addonFinalizer (Finalizers managedClusterAddon)
     then
       (case addonUpdate clusterName
               (managedClusterAddon\<lparr>Finalizers := Finalizers managedClusterAddon @ [addonFinalizer]\<rparr>) w of
          (r, w') \<Rightarrow> (err_of r, w'))
     else if \<not> IsZero (DeletionTimestamp managedClusterAddon) then
       (case removeAddonResources c managedCluster w of
          (Some e, w') \<Rightarrow> (Some e, w')
        | (None, w') \<Rightarrow> removeAddonFinalizer managedClusterAddon w')
     else
     (case store_get (clusterManagementStore w) (deploy_addonName c) of
        Inl e \<Rightarrow> (Some e, w)
      | Inr clusterManagement \<Rightarrow>
     (case getAddonConfig c w (CRDName clusterManagement) (CRName clusterManagement) clusterName of
        Inl e \<Rightarrow> (Some e, w)
      | Inr config \<Rightarrow>
     (case buildManifestWorkFromObject c clusterName
             (fst (AgentManifests c managedCluster config)) of
        Inl e \<Rightarrow> (Some e, w)
      | Inr None \<Rightarrow> (None, w)
      | Inr (Some work) \<Rightarrow>
     (case store_get (workStore w) (clusterName, Name work) of
        Inl e \<Rightarrow>
          if IsNotFound e
          then (case workCreate clusterName work w of (r, w') \<Rightarrow> (err_of r, w'))
          else (Some e, w)
      | Inr existingWork \<Rightarrow>
          if ManifestsEqual (Manifests existingWork) (Manifests work) then (None, w)
          else
            (case workUpdate clusterName
                    (work\<lparr>ResourceVersion := ResourceVersion existingWork\<rparr>) w of
               (r, w') \<Rightarrow> (err_of r, w'))))))))"

section \<open>The CSR approving controller\<close>

text \<open>\<^verbatim>\<open>helpers.AgentGroup\<close>\<close>

definition AgentGroup :: "string \<Rightarrow> string \<Rightarrow> string" where
  "AgentGroup clusterName addonName =
     ''system:open-cluster-management:cluster:'' @ clusterName @ '':addon:'' @ addonName"

definition spokeClusterNameLabel :: string where
  "spokeClusterNameLabel = ''open-cluster-management.io/cluster-name''"

definition CertificateApproved :: string where
  "CertificateApproved = ''Approved''"

definition CertificateDenied :: string where
  "CertificateDenied = ''Denied''"

text \<open>
  The standard library's \<^verbatim>\<open>pem.Decode\<close> (a block, or nil) and
  \<^verbatim>\<open>x509.ParseCertificateRequest\<close> are taken as parameters: of a block only its type
  and bytes are read, of a parsed request only the subject's common name and
  organizations.
\<close>

record pem_block =
  BlockType :: string
  BlockBytes :: bytes

record certificate_request =
  CommonName :: string
  Organization :: "string list"

record x509_library =
  pemDecode :: "bytes \<Rightarrow> pem_block option"
  ParseCertificateRequest :: "bytes \<Rightarrow> error + certificate_request"

definition isSpokeClusterClientCertRenewal ::
  "x509_library \<Rightarrow> string \<Rightarrow> string \<Rightarrow> csr \<Rightarrow> bool" where
  "isSpokeClusterClientCertRenewal lib signer addonName csr =
     (case Labels csr spokeClusterNameLabel of
        None \<Rightarrow> False
      | Some spokeClusterName \<Rightarrow>
     if length (SignerName csr) \<noteq> 0 \<and> SignerName csr \<noteq> signer then False
     else
     (case pemDecode lib (Request csr) of
        None \<Rightarrow> False
      | Some block \<Rightarrow>
     if BlockType block \<noteq> ''CERTIFICATE REQUEST'' then False
     else
     (case ParseCertificateRequest lib (BlockBytes block) of
        Inl e \<Rightarrow> False
      | Inr x509cr \<Rightarrow>
     (case Organization x509cr of
        [organization] \<Rightarrow>
          if organization \<noteq> AgentGroup spokeClusterName addonName then False
          else if \<not> prefix organization (CommonName x509cr) then False
          else Username csr = CommonName x509cr
      | _ \<Rightarrow> False))))"

text \<open>\<^verbatim>\<open>IsCSRInTerminalState\<close>\<close>

fun IsCSRInTerminalStateLoop :: "csr_condition list \<Rightarrow> bool" where
  "IsCSRInTerminalStateLoop [] = False"
| "IsCSRInTerminalStateLoop (c # cs) =
     (if CsrType c = CertificateApproved then True
      else if CsrType c = CertificateDenied then True
      else IsCSRInTerminalStateLoop cs)"

definition IsCSRInTerminalState :: "csr \<Rightarrow> bool" where
  "IsCSRInTerminalState csr = IsCSRInTerminalStateLoop (CsrConditions csr)"

text \<open>\<^verbatim>\<open>isCSRApproved\<close>\<close>

fun isCSRApprovedLoop :: "bool \<Rightarrow> csr_condition list \<Rightarrow> bool" where
  "isCSRApprovedLoop approved [] = approved"
| "isCSRApprovedLoop approved (condition # conditions) =
     (if CsrType condition = CertificateDenied then False
      else if CsrType condition = CertificateApproved then isCSRApprovedLoop True conditions
      else isCSRApprovedLoop approved conditions)"

definition isCSRApproved :: "csr \<Rightarrow> bool" where
  "isCSRApproved csr = isCSRApprovedLoop False (CsrConditions csr)"

record csr_controller =
  approveCheckFuncs :: "(csr \<Rightarrow> bool) list"
  renewCheckFuncs :: "(csr \<Rightarrow> bool) list"
  csr_signer :: string
  csr_addonName :: string

text \<open>\<^verbatim>\<open>NewCSRApprovingController\<close>: the renewal checks are
  \<^verbatim>\<open>IsCSRInTerminalState\<close>, then \<^verbatim>\<open>c.isSpokeClusterClientCertRenewal\<close>.\<close>

definition NewCSRApprovingController ::
  "x509_library \<Rightarrow> string \<Rightarrow> string \<Rightarrow> (csr \<Rightarrow> bool) list \<Rightarrow> csr_controller" where
  "NewCSRApprovingController lib signer addonName checkFuncs =
     \<lparr>approveCheckFuncs = checkFuncs,
      renewCheckFuncs = [IsCSRInTerminalState] @ [isSpokeClusterClientCertRenewal lib signer addonName],
      csr_signer = signer,
      csr_addonName = addonName\<rparr>"

text \<open>The two check loops of \<^verbatim>\<open>sync\<close>: the flag starts false, takes the result of
  each check and the loop breaks at the first check that fails.\<close>

fun runCheckFuncs :: "bool \<Rightarrow> (csr \<Rightarrow> bool) list \<Rightarrow> csr \<Rightarrow> bool" where
  "runCheckFuncs approved [] csr = approved"
| "runCheckFuncs approved (checkFunc # checkFuncs) csr =
     (if \<not> checkFunc csr then False else runCheckFuncs True checkFuncs csr)"

text \<open>\<^verbatim>\<open>authorize\<close>: a \<^verbatim>\<open>SubjectAccessReview\<close> for the verb renew; the review is
  answered and not stored, so it is not listed among the write calls.\<close>

definition authorize :: "world \<Rightarrow> string \<Rightarrow> csr \<Rightarrow> error + bool" where
  "authorize w addonName csr =
     reviewAccess w
       \<lparr>SarUser = Username csr,
        SarUID = UID csr,
        SarGroups = Groups csr,
        SarExtra = Extra csr,
        SarGroup = ''register.open-cluster-management.io'',
        SarResource = addonName,
        SarVerb = ''renew'',
        SarSubresource = ''clientcertificates''\<rparr>"

text \<open>\<^verbatim>\<open>CertificateSigningRequests().UpdateApproval\<close>\<close>

definition csrUpdateApproval :: "string \<Rightarrow> csr \<Rightarrow> world \<Rightarrow> (error + csr) \<times> world" where
  "csrUpdateApproval n csr w =
     (let w1 = record_action (UpdateApproval n csr) w in
      case csrStore w n of
        None \<Rightarrow> (Inl NotFound, w1)
      | Some old \<Rightarrow>
          if ResourceVersion csr \<noteq> ResourceVersion old then (Inl Conflict, w1)
          else
            (let stored = old\<lparr>ResourceVersion := Suc (ResourceVersion old),
                              CsrConditions := CsrConditions csr\<rparr>
             in (Inr stored, w1\<lparr>csrStore := (csrStore w1)(n \<mapsto> stored)\<rparr>)))"

text \<open>The end of \<^verbatim>\<open>sync\<close>: append the Approved condition and commit it.\<close>

definition approveCSR :: "csr \<Rightarrow> world \<Rightarrow> error option \<times> world" where
  "approveCSR csr w =
     (case csrUpdateApproval (Name csr)
             (csr\<lparr>CsrConditions := CsrConditions csr @
                 [\<lparr>CsrType = CertificateApproved,
                   CsrStatus = ConditionTrue,
                   CsrReason = ''AutoApprovedByHubCSRApprovingController'',
                   CsrMessage = ''Auto approving addon agent certificate after SubjectAccessReview.''\<rparr>]\<rparr>)
             w of
        (r, w') \<Rightarrow> (err_of r, w'))"

text \<open>\<^verbatim>\<open>csrApprovingController.sync\<close>\<close>

definition csrApprovingController_sync ::
  "csr_controller \<Rightarrow> string \<Rightarrow> world \<Rightarrow> error option \<times> world" where
  "csrApprovingController_sync c csrName w =
     (case store_get (csrStore w) csrName of
        Inl e \<Rightarrow> if IsNotFound e then (None, w) else (Some e, w)
      | Inr csr \<Rightarrow>
     if isCSRApproved csr then (None, w)
     else
       (let approved = runCheckFuncs False (approveCheckFuncs c) csr;
            renewApproved = runCheckFuncs False (renewCheckFuncs c) csr
        in if \<not> approved \<and> \<not> renewApproved then (None, w)
           else if renewApproved then
             (case authorize w (csr_addonName c) csr of
                Inl e \<Rightarrow> (Some e, w)
              | Inr allowed \<Rightarrow> if \<not> allowed then (None, w) else approveCSR csr w)
           else approveCSR csr w))"

section \<open>The add-on configuration controller\<close>

text \<open>Go's \<^verbatim>\<open>m[k]\<close> on a \<^verbatim>\<open>map[string]string\<close>: the empty string for a missing key.\<close>

definition lookup :: "(string \<rightharpoonup> string) \<Rightarrow> string \<Rightarrow> string" where
  "lookup m k = (case m k of None \<Rightarrow> [] | Some v \<Rightarrow> v)"

text \<open>
  Modelled from the spec: \<^verbatim>\<open>resourcemerge.MergeMap\<close> of library-go is not part of the
  repository; section 4.3 of the specification has the annotations merged into the
  add-on's and a write only if the merge changed a value.  Every required key that is
  missing or bound to another value is set, and the flag is raised when that happens.
  The required entries are listed in the order the source assigns them.
\<close>

fun MergeMap ::
  "bool \<Rightarrow> (string \<rightharpoonup> string) \<Rightarrow> (string \<times> string) list \<Rightarrow> bool \<times> (string \<rightharpoonup> string)" where
  "MergeMap modified existing [] = (modified, existing)"
| "MergeMap modified existing ((k, v) # required) =
     (if existing k \<noteq> Some v then MergeMap True (existing(k \<mapsto> v)) required
      else MergeMap modified existing required)"

record config_controller =
  config_addonName :: string
  config_signer :: string
  enableRegistration :: bool
  addonInstallNamespace :: string
  AgentBootstrapKubeConfig :: "managed_cluster \<Rightarrow> error + bytes"

text \<open>\<^verbatim>\<open>NewAddonConfigController\<close>: the constructor has no signer among its arguments and
  leaves the field \<^verbatim>\<open>signer\<close> at its zero value.\<close>

definition NewAddonConfigController ::
  "string \<Rightarrow> bool \<Rightarrow> string \<Rightarrow> (managed_cluster \<Rightarrow> error + bytes) \<Rightarrow> config_controller" where
  "NewAddonConfigController addonName enableReg installNamespace agentAddon =
     \<lparr>config_addonName = addonName,
      config_signer = [],
      enableRegistration = enableReg,
      addonInstallNamespace = installNamespace,
      AgentBootstrapKubeConfig = agentAddon\<rparr>"

definition annotationData :: "config_controller \<Rightarrow> bytes \<Rightarrow> (string \<times> string) list" where
  "annotationData c kubeConfigData =
     (if enableRegistration c
      then [(''signer'', config_signer c),
            (''installNamespace'', addonInstallNamespace c),
            (''enable_registration'', ''true'')]
      else [(''enable_registration'', ''false'')])
     @ (if length kubeConfigData > 0
        then [(''bootstrapSecret'', config_addonName c @ ''-bootstrap-kubeconfig'')]
        else [])"

text \<open>\<^verbatim>\<open>addonConfigController.sync\<close>\<close>

definition addonConfigController_sync ::
  "config_controller \<Rightarrow> string \<Rightarrow> world \<Rightarrow> error option \<times> world" where
  "addonConfigController_sync c addonNameSpace w =
     (case lister_get (addonCache w) addonNameSpace (config_addonName c) of
        Inl e \<Rightarrow> if IsNotFound e then (None, w) else (Some e, w)
      | Inr addon \<Rightarrow>
     (case lister_get (clusterCache w) [] addonNameSpace of
        Inl e \<Rightarrow> if IsNotFound e then (None, w) else (Some e, w)
      | Inr cluster \<Rightarrow>
     (case AgentBootstrapKubeConfig c cluster of
        Inl e \<Rightarrow> (Some e, w)
      | Inr kubeConfigData \<Rightarrow>
     (case MergeMap False (Annotations addon) (annotationData c kubeConfigData) of
        (modified, merged) \<Rightarrow>
          if \<not> modified then (None, w)
          else
            (case addonUpdate addonNameSpace (addon\<lparr>Annotations := merged\<rparr>) w of
               (r, w') \<Rightarrow> (err_of r, w'))))))"

section \<open>The certificate manager controller of the spoke agent\<close>

definition spokeRegistrationFinalizer :: string where
  "spokeRegistrationFinalizer = ''addonregistration.open-cluster-management.io''"

text \<open>\<^verbatim>\<open>certificateManagerController.removeAddonFinalizer\<close>\<close>

definition certificateManager_removeAddonFinalizer ::
  "string \<Rightarrow> addon \<Rightarrow> world \<Rightarrow> error option \<times> world" where
  "certificateManager_removeAddonFinalizer clusterName a w =
     (let copiedFinalizers = copyFinalizers spokeRegistrationFinalizer [] (Finalizers a) in
      if length (Finalizers a) \<noteq> length copiedFinalizers then
        (case addonUpdate clusterName (a\<lparr>Finalizers := copiedFinalizers\<rparr>) w of
           (r, w') \<Rightarrow> (err_of r, w'))
      else (None, w))"

text \<open>
  The controller of one spoke cluster.  \<open>csrControllers\<close> is the process-local map of
  the add-ons whose certificate manager was started.  The last part of \<^verbatim>\<open>sync\<close>
  (reading the configuration, \<^verbatim>\<open>newCertificateManager\<close> and \<^verbatim>\<open>start\<close>) starts
  goroutines and may poll without end: it is the parameter \<open>startCertificateManager\<close>,
  whose value \<open>None\<close> stands for a call that does not return.
\<close>

record certificate_manager_controller =
  certmgr_clusterName :: string
  csrControllers :: "string list"
  startCertificateManager :: "string \<Rightarrow> addon \<Rightarrow> world \<Rightarrow> (error option \<times> world) option"

text \<open>\<^verbatim>\<open>certificateManagerController.sync\<close>: the result is the error, the controller
  with its map, and the world.\<close>

definition certificateManagerController_sync ::
  "certificate_manager_controller \<Rightarrow> string \<Rightarrow> world \<Rightarrow>
     (error option \<times> certificate_manager_controller \<times> world) option" where
  "certificateManagerController_sync c addonName w =
     (case lister_get (addonCache w) (certmgr_clusterName c) addonName of
        Inl e \<Rightarrow> if IsNotFound e then Some (None, c, w) else Some (Some e, c, w)
      | Inr addon \<Rightarrow>
     if Annotations addon = Map.empty then Some (None, c, w)
     else if lookup (Annotations addon) ''enable_registration'' = ''false'' then Some (None, c, w)
     else if IsZero (DeletionTimestamp addon)
             \<and> \<not> hasFinalizer spokeRegistrationFinalizer (Finalizers addon)
     then
       (case addonUpdate (certmgr_clusterName c)
               (addon\<lparr>Finalizers := Finalizers addon @ [spokeRegistrationFinalizer]\<rparr>) w of
          (r, w') \<Rightarrow> Some (err_of r, c, w'))
     else if \<not> IsZero (DeletionTimestamp addon) then
       (case certificateManager_removeAddonFinalizer (certmgr_clusterName c) addon w of
          (r, w') \<Rightarrow>
            Some (r, c\<lparr>csrControllers := removeAll addonName (csrControllers c)\<rparr>, w'))
     else
       (case startCertificateManager c addonName addon w of
          None \<Rightarrow> None
        | Some (Some e, w') \<Rightarrow> Some (Some e, c, w')
        | Some (None, w') \<Rightarrow>
            Some (None, c\<lparr>csrControllers := addonName # removeAll addonName (csrControllers c)\<rparr>, w')))"

section \<open>The status update helper\<close>

text \<open>
  \<^verbatim>\<open>meta.FindStatusCondition\<close> and \<^verbatim>\<open>meta.SetStatusCondition\<close> of apimachinery
  v0.19 are not part of the repository; they are written out as that library has them:
  the first condition of the type is changed in place (its transition time only when
  the status changes), or the new condition is appended, stamped with the current time
  when it carries none.
\<close>

fun FindStatusCondition :: "condition list \<Rightarrow> string \<Rightarrow> condition option" where
  "FindStatusCondition [] conditionType = None"
| "FindStatusCondition (c # cs) conditionType =
     (if Type c = conditionType then Some c else FindStatusCondition cs conditionType)"

fun SetStatusCondition :: "gotime \<Rightarrow> condition list \<Rightarrow> condition \<Rightarrow> condition list" where
  "SetStatusCondition now [] newCondition =
     [if LastTransitionTime newCondition = zeroTime
      then newCondition\<lparr>LastTransitionTime := now\<rparr> else newCondition]"
| "SetStatusCondition now (c # cs) newCondition =
     (if Type c = Type newCondition then
        (if Status c \<noteq> Status newCondition
         then c\<lparr>Status := Status newCondition,
                LastTransitionTime :=
                  (if LastTransitionTime newCondition \<noteq> zeroTime
                   then LastTransitionTime newCondition else now),
                Reason := Reason newCondition,
                Message := Message newCondition\<rparr>
         else c\<lparr>Reason := Reason newCondition, Message := Message newCondition\<rparr>) # cs
      else c # SetStatusCondition now cs newCondition)"

type_synonym UpdateAddonStatusFunc = "addon_status \<Rightarrow> error + addon_status"

text \<open>\<^verbatim>\<open>helpers.UpdateAddonConditionFn\<close>; \<open>now\<close> is what \<^verbatim>\<open>time.Now()\<close> returns inside
  \<^verbatim>\<open>SetStatusCondition\<close>.\<close>

definition UpdateAddonConditionFn :: "gotime \<Rightarrow> condition \<Rightarrow> UpdateAddonStatusFunc" where
  "UpdateAddonConditionFn now cond oldStatus =
     Inr (oldStatus\<lparr>Conditions := SetStatusCondition now (Conditions oldStatus) cond\<rparr>)"

text \<open>
  The add-on client \<^verbatim>\<open>UpdateAddonStatus\<close> is handed: \<^verbatim>\<open>Get\<close> and \<^verbatim>\<open>UpdateStatus\<close> of
  \<^verbatim>\<open>ManagedClusterAddOns(namespace)\<close>, as functions on whatever stands behind the client
  (\<open>'w\<close>), so that any answer of the API server, a conflict with another writer
  included, is an answer some client gives.
\<close>

record 'w addon_client =
  clientGet :: "string \<Rightarrow> string \<Rightarrow> 'w \<Rightarrow> (error + addon) \<times> 'w"
  clientUpdateStatus :: "string \<Rightarrow> addon \<Rightarrow> 'w \<Rightarrow> (error + addon) \<times> 'w"

text \<open>The client of the \<open>world\<close> above.\<close>

definition worldAddonClient :: "world addon_client" where
  "worldAddonClient =
     \<lparr>clientGet = (\<lambda>ns n w. (store_get (addonStore w) (ns, n), w)),
      clientUpdateStatus = addonUpdateStatus\<rparr>"

fun applyUpdateFuncs :: "UpdateAddonStatusFunc list \<Rightarrow> addon_status \<Rightarrow> error + addon_status" where
  "applyUpdateFuncs [] newStatus = Inr newStatus"
| "applyUpdateFuncs (update # updateFuncs) newStatus =
     (case update newStatus of
        Inl e \<Rightarrow> Inl e
      | Inr newStatus' \<Rightarrow> applyUpdateFuncs updateFuncs newStatus')"

text \<open>
  The closure \<^verbatim>\<open>UpdateAddonStatus\<close> retries.  \<open>vars\<close> are the two variables it
  assigns, \<^verbatim>\<open>updatedManagedClusterStatus\<close> and \<^verbatim>\<open>updated\<close>; its result is the error it
  returns.
\<close>

definition updateAttempt ::
  "'w addon_client \<Rightarrow> string \<Rightarrow> string \<Rightarrow> UpdateAddonStatusFunc list \<Rightarrow>
     addon_status option \<times> bool \<Rightarrow> 'w \<Rightarrow>
     ((addon_status option \<times> bool) \<times> error option) \<times> 'w" where
  "updateAttempt client spokeClusterName addonName updateFuncs vars w =
     (case clientGet client spokeClusterName addonName w of
        (Inl e, w1) \<Rightarrow> ((vars, Some e), w1)
      | (Inr addon, w1) \<Rightarrow>
     (case applyUpdateFuncs updateFuncs (AddonStatus addon) of
        Inl e \<Rightarrow> ((vars, Some e), w1)
      | Inr newStatus \<Rightarrow>
          if AddonStatus addon = newStatus then (((Some newStatus, snd vars), None), w1)
          else
            (case clientUpdateStatus client spokeClusterName
                    (addon\<lparr>AddonStatus := newStatus\<rparr>) w1 of
               (Inl e, w2) \<Rightarrow> ((vars, Some e), w2)
             | (Inr updatedManagedCluster, w2) \<Rightarrow>
                 (((Some (AddonStatus updatedManagedCluster), True), None), w2))))"

text \<open>
  Modelled from the spec: \<^verbatim>\<open>retry.RetryOnConflict\<close> and \<^verbatim>\<open>retry.DefaultBackoff\<close> of
  client-go are not part of the repository; section 7 of the specification has status
  updates retried on conflict up to the framework's default backoff, which is four
  attempts.  The closure runs again while it returns a conflict and attempts are left;
  any other result ends the loop, and the last conflict is returned when the attempts
  run out.  The pauses between attempts are left out.
\<close>

fun RetryOnConflict ::
  "nat \<Rightarrow> error option \<Rightarrow> ('v \<Rightarrow> 'w \<Rightarrow> ('v \<times> error option) \<times> 'w) \<Rightarrow> 'v \<Rightarrow> 'w \<Rightarrow>
     ('v \<times> error option) \<times> 'w" where
  "RetryOnConflict 0 lastErr fn vars w = ((vars, lastErr), w)"
| "RetryOnConflict (Suc steps) lastErr fn vars w =
     (case fn vars w of
        ((vars', None), w') \<Rightarrow> ((vars', None), w')
      | ((vars', Some e), w') \<Rightarrow>
          if IsConflict e then RetryOnConflict steps (Some e) fn vars' w'
          else ((vars', Some e), w'))"

definition DefaultBackoffSteps :: nat where
  "DefaultBackoffSteps = 4"

text \<open>\<^verbatim>\<open>helpers.UpdateAddonStatus\<close>: the status, the flag \<^verbatim>\<open>updated\<close> and the error.\<close>

definition UpdateAddonStatus ::
  "'w addon_client \<Rightarrow> string \<Rightarrow> string \<Rightarrow> UpdateAddonStatusFunc list \<Rightarrow> 'w \<Rightarrow>
     (addon_status option \<times> bool \<times> error option) \<times> 'w" where
  "UpdateAddonStatus client spokeClusterName addonName updateFuncs w =
     (case RetryOnConflict DefaultBackoffSteps None
             (updateAttempt client spokeClusterName addonName updateFuncs) (None, False) w of
        (((updatedManagedClusterStatus, updated), err), w') \<Rightarrow>
          ((updatedManagedClusterStatus, updated, err), w'))"

text \<open>
  The two notions the statement about \<^verbatim>\<open>UpdateAddonStatus\<close> is put in.  The update
  functions applied in order: each one to the status the one before it returned,
  starting from the status given, the first error ending the run.  And an attempt that
  is lost to a conflict: started in \<open>v\<close> it ends in \<open>v'\<close> with a conflict, returned by
  \<^verbatim>\<open>Get\<close>, by an update function, or by \<^verbatim>\<open>UpdateStatus\<close> called with a changed
  status.
\<close>

definition specAppliedInOrder ::
  "UpdateAddonStatusFunc list \<Rightarrow> addon_status \<Rightarrow> error + addon_status" where
  "specAppliedInOrder updateFuncs status =
     foldl (\<lambda>result update. case result of Inl e \<Rightarrow> Inl e | Inr newStatus \<Rightarrow> update newStatus)
       (Inr status) updateFuncs"

definition specAttemptConflicts ::
  "'w addon_client \<Rightarrow> string \<Rightarrow> string \<Rightarrow> UpdateAddonStatusFunc list \<Rightarrow> 'w \<Rightarrow> 'w \<Rightarrow> bool" where
  "specAttemptConflicts client ns n updateFuncs v v' =
     (case clientGet client ns n v of
        (Inl e, v1) \<Rightarrow> IsConflict e \<and> v' = v1
      | (Inr a, v1) \<Rightarrow>
          (case specAppliedInOrder updateFuncs (AddonStatus a) of
             Inl e \<Rightarrow> IsConflict e \<and> v' = v1
           | Inr newStatus \<Rightarrow>
               newStatus \<noteq> AddonStatus a \<and>
               (case clientUpdateStatus client ns (a\<lparr>AddonStatus := newStatus\<rparr>) v1 of
                  (Inl e, v2) \<Rightarrow> IsConflict e \<and> v' = v2
                | (Inr stored, v2) \<Rightarrow> False)))"

section \<open>The lease controller of the hub\<close>

text \<open>\<^verbatim>\<open>time.Second\<close>, in nanoseconds.\<close>

definition Second :: int where
  "Second = 1000000000"

definition leaseDurationTimes :: "32 word" where
  "leaseDurationTimes = 5"

text \<open>
  \<^verbatim>\<open>time.Duration(leaseDurationTimes*leaseDurationSeconds) * time.Second\<close>, after the
  default of 60 for a cluster whose lease duration is 0: the product is an \<^verbatim>\<open>int32\<close>
  and wraps around; the conversion to \<^verbatim>\<open>time.Duration\<close> reads it as a signed
  number, and the second product cannot overflow 64 bits.
\<close>

definition gracePeriod :: "32 word \<Rightarrow> int" where
  "gracePeriod clusterLeaseDurationSeconds =
     (let leaseDurationSeconds =
            (if clusterLeaseDurationSeconds = 0 then 60 else clusterLeaseDurationSeconds)
      in sint (leaseDurationTimes * leaseDurationSeconds) * Second)"

text \<open>\<^verbatim>\<open>CoordinationV1().Leases(ns).Create\<close>\<close>

definition leaseCreate :: "string \<Rightarrow> lease \<Rightarrow> world \<Rightarrow> (error + lease) \<times> world" where
  "leaseCreate ns l w =
     (let w1 = record_action (CreateLease ns l) w in
      case leaseStore w (ns, Name l) of
        Some _ \<Rightarrow> (Inl AlreadyExists, w1)
      | None \<Rightarrow>
          (let stored = l\<lparr>ResourceVersion := 1\<rparr>
           in (Inr stored, w1\<lparr>leaseStore := (leaseStore w1)((ns, Name l) \<mapsto> stored)\<rparr>)))"

text \<open>\<^verbatim>\<open>addonLister.ManagedClusterAddOns(ns).List(labels.Everything())\<close>\<close>

definition addonLister_List :: "world \<Rightarrow> string \<Rightarrow> addon list" where
  "addonLister_List w ns = filter (\<lambda>a. Namespace a = ns) (addonCache w)"

definition AddonManagerUpdateStopped :: condition where
  "AddonManagerUpdateStopped =
     \<lparr>Type = ''Available'',
      Status = ConditionUnknown,
      LastTransitionTime = zeroTime,
      Reason = ''AddonManagerUpdateStopped'',
      Message = ''Addon manager stopped updating its lease.''\<rparr>"

text \<open>The loop of \<^verbatim>\<open>leaseController.sync\<close> over the add-ons of one cluster.  The event
  recorded after an update is left out.\<close>

fun leaseController_addons ::
  "gotime \<Rightarrow> string \<Rightarrow> addon list \<Rightarrow> world \<Rightarrow> error option \<times> world" where
  "leaseController_addons now clusterName [] w = (None, w)"
| "leaseController_addons now clusterName (addon # addons) w =
     (case UpdateAddonStatus worldAddonClient clusterName (Name addon)
             [UpdateAddonConditionFn now AddonManagerUpdateStopped] w of
        ((_, _, Some e), w') \<Rightarrow> (Some e, w')
      | ((_, _, None), w') \<Rightarrow> leaseController_addons now clusterName addons w')"

text \<open>
  The body of the loop of \<^verbatim>\<open>leaseController.sync\<close> over the clusters: \<open>None\<close> when
  the loop goes on with the next cluster, the error when \<^verbatim>\<open>sync\<close> returns it.  \<open>now\<close>
  is the reading of \<^verbatim>\<open>time.Now()\<close>; one reading is used for the whole pass.  Calling
  \<^verbatim>\<open>Add\<close> on a nil \<^verbatim>\<open>RenewTime\<close> panics.
\<close>

definition leaseController_cluster ::
  "gotime \<Rightarrow> managed_cluster \<Rightarrow> world \<Rightarrow> error option \<times> world" where
  "leaseController_cluster now cluster w =
     (let leaseName = ''addon-lease'' in
      case lister_get (leaseCache w) (Name cluster) leaseName of
        Inl e \<Rightarrow>
          if IsNotFound e then
            (case leaseCreate (Name cluster)
                    \<lparr>Name = leaseName,
                     Namespace = Name cluster,
                     Labels = [''addon.open-cluster-management.io/cluster-name'' \<mapsto> Name cluster],
                     Annotations = Map.empty,
                     Finalizers = [],
                     DeletionTimestamp = None,
                     ResourceVersion = 0,
                     HolderIdentity = Some leaseName,
                     RenewTime = Some now\<rparr> w of
               (r, w') \<Rightarrow> (err_of r, w'))
          else (Some e, w)
      | Inr observedLease \<Rightarrow>
          (case RenewTime observedLease of
             None \<Rightarrow> (Some NilPointerDereference, w)
           | Some renewTime \<Rightarrow>
               if now < renewTime + gracePeriod (LeaseDurationSeconds cluster) then (None, w)
               else leaseController_addons now (Name cluster)
                      (addonLister_List w (Name cluster)) w))"

fun leaseController_clusters ::
  "gotime \<Rightarrow> managed_cluster list \<Rightarrow> world \<Rightarrow> error option \<times> world" where
  "leaseController_clusters now [] w = (None, w)"
| "leaseController_clusters now (cluster # clusters) w =
     (case leaseController_cluster now cluster w of
        (Some e, w') \<Rightarrow> (Some e, w')
      | (None, w') \<Rightarrow> leaseController_clusters now clusters w')"

text \<open>
  The controller.  Of the fields of the struct, \<^verbatim>\<open>kubeClient\<close>, \<^verbatim>\<open>addonClient\<close>,
  \<^verbatim>\<open>addonLister\<close> and \<^verbatim>\<open>leaseLister\<close> are set wherever the struct is built, to the
  clients of the API server and the listers of the informer caches, which the world holds;
  \<^verbatim>\<open>clusterLister\<close> is the lister of a cache when it is set, and a nil interface when it
  is not.
\<close>

record lease_controller =
  clusterLister :: "(world \<Rightarrow> managed_cluster list) option"

text \<open>
  \<^verbatim>\<open>NewAddonLeaseController\<close> of the hub, the constructor the manager calls: it fills
  in the two clients, the add-on lister and the lease lister.  The cluster informer it
  is handed is not used, and \<^verbatim>\<open>clusterLister\<close> keeps its zero value.
\<close>

definition NewAddonLeaseController :: "(world \<Rightarrow> managed_cluster list) \<Rightarrow> lease_controller" where
  "NewAddonLeaseController clusterInformer = \<lparr>clusterLister = None\<rparr>"

text \<open>
  \<^verbatim>\<open>leaseController.sync\<close>.  Calling \<^verbatim>\<open>List\<close> on the nil interface panics; the lister
  of a cache returns no error.
\<close>

definition leaseController_sync ::
  "lease_controller \<Rightarrow> gotime \<Rightarrow> world \<Rightarrow> error option \<times> world" where
  "leaseController_sync c now w =
     (case clusterLister c of
        None \<Rightarrow> (Some NilPointerDereference, w)
      | Some lister \<Rightarrow> leaseController_clusters now (lister w) w)"

section \<open>The add-on lease controller of the spoke agent\<close>

definition addonLeaseDurationTimes :: int where
  "addonLeaseDurationTimes = 5"

definition AddonLeaseDurationSeconds :: int where
  "AddonLeaseDurationSeconds = 60"

definition AddonLeaseNotFound :: condition where
  "AddonLeaseNotFound =
     \<lparr>Type = ''Degraded'',
      Status = ConditionTrue,
      LastTransitionTime = zeroTime,
      Reason = ''AddonLeaseNotFound'',
      Message = ''Addon agent is not found.''\<rparr>"

definition ManagedClusterLeaseUpdated :: condition where
  "ManagedClusterLeaseUpdated =
     \<lparr>Type = ''Degraded'',
      Status = ConditionFalse,
      LastTransitionTime = zeroTime,
      Reason = ''ManagedClusterLeaseUpdated'',
      Message = ''Addon agent is updating its lease.''\<rparr>"

definition AddonLeaseUpdateStopped :: condition where
  "AddonLeaseUpdateStopped =
     \<lparr>Type = ''Degraded'',
      Status = ConditionTrue,
      LastTransitionTime = zeroTime,
      Reason = ''AddonLeaseUpdateStopped'',
      Message = ''Addon agent stopped updating its lease.''\<rparr>"

text \<open>
  The controller: the cluster name of the struct, and \<^verbatim>\<open>labels.Parse\<close>, a library
  function the source calls and the repository does not hold.  It returns a selector, here
  the test a selector makes on the labels of an object, or an error and no selector.
\<close>

record addon_lease_controller =
  lease_clusterName :: string
  Parse :: "string \<Rightarrow> error + ((string \<rightharpoonup> string) \<Rightarrow> bool)"

text \<open>
  \<^verbatim>\<open>leaseLister.List(selector)\<close> on the informer cache: the leases of every namespace
  whose labels the selector matches.  The lister calls a method of the selector before it
  looks at the cache, so that a nil selector panics; it returns no error.
\<close>

definition leaseLister_List ::
  "world \<Rightarrow> ((string \<rightharpoonup> string) \<Rightarrow> bool) option \<Rightarrow> error + lease list" where
  "leaseLister_List w selector =
     (case selector of
        None \<Rightarrow> Inl NilPointerDereference
      | Some matches \<Rightarrow> Inr (filter (\<lambda>l. matches (Labels l)) (leaseCache w)))"

text \<open>\<^verbatim>\<open>getLeaseByAddonName\<close>: the error of \<^verbatim>\<open>labels.Parse\<close> is dropped, and the
  selector, nil after an error, is handed to the lister.\<close>

definition getLeaseByAddonName ::
  "addon_lease_controller \<Rightarrow> world \<Rightarrow> string \<Rightarrow> error + lease list" where
  "getLeaseByAddonName c w addonName =
     (let selector =
            (case Parse c (''open-cluster-management-addon='' @ addonName) of
               Inl _ \<Rightarrow> None
             | Inr selector \<Rightarrow> Some selector)
      in leaseLister_List w selector)"

text \<open>\<^verbatim>\<open>checkAddonLeases\<close>: the first lease still within the grace period decides;
  \<^verbatim>\<open>Add\<close> on a nil \<^verbatim>\<open>RenewTime\<close> panics.\<close>

fun checkAddonLeases :: "gotime \<Rightarrow> lease list \<Rightarrow> error + condition" where
  "checkAddonLeases now [] = Inr AddonLeaseUpdateStopped"
| "checkAddonLeases now (l # leases) =
     (case RenewTime l of
        None \<Rightarrow> Inl NilPointerDereference
      | Some renewTime \<Rightarrow>
          if now < renewTime + addonLeaseDurationTimes * AddonLeaseDurationSeconds * Second
          then Inr ManagedClusterLeaseUpdated
          else checkAddonLeases now leases)"

text \<open>
  The loop of \<^verbatim>\<open>addonLeaseController.sync\<close> over the add-ons.  What
  \<^verbatim>\<open>getLeaseByAddonName\<close> yields in place of a list is the panic of the lister, which
  ends the reconcile; the error the source tests for is none the lister returns.
\<close>

fun addonLeaseController_addons ::
  "addon_lease_controller \<Rightarrow> gotime \<Rightarrow> addon list \<Rightarrow> world \<Rightarrow> error option \<times> world" where
  "addonLeaseController_addons c now [] w = (None, w)"
| "addonLeaseController_addons c now (addon # addons) w =
     (case getLeaseByAddonName c w (Name addon) of
        Inl e \<Rightarrow> (Some e, w)
      | Inr leases \<Rightarrow>
     (case (if length leases = 0 then Inr AddonLeaseNotFound
            else checkAddonLeases now leases) of
        Inl e \<Rightarrow> (Some e, w)
      | Inr cond \<Rightarrow>
          (case UpdateAddonStatus worldAddonClient (lease_clusterName c) (Name addon)
                  [UpdateAddonConditionFn now cond] w of
             ((_, _, Some e), w') \<Rightarrow> (Some e, w')
           | ((_, _, None), w') \<Rightarrow> addonLeaseController_addons c now addons w')))"

text \<open>\<^verbatim>\<open>addonLeaseController.sync\<close>\<close>

definition addonLeaseController_sync ::
  "addon_lease_controller \<Rightarrow> gotime \<Rightarrow> world \<Rightarrow> error option \<times> world" where
  "addonLeaseController_sync c now w =
     addonLeaseController_addons c now (addonLister_List w (lease_clusterName c)) w"

section \<open>What the store holds\<close>

text \<open>The API server holds the add-on \<open>ns/n\<close>; and it holds it with a condition of
  the type of \<open>cond\<close> that has the status and the reason of \<open>cond\<close>.\<close>

definition addonStored :: "world \<Rightarrow> string \<Rightarrow> string \<Rightarrow> bool" where
  "addonStored w ns n =
     (case addonStore w (ns, n) of None \<Rightarrow> False | Some a \<Rightarrow> Name a = n)"

definition addonHasCondition :: "world \<Rightarrow> string \<Rightarrow> string \<Rightarrow> condition \<Rightarrow> bool" where
  "addonHasCondition w ns n cond =
     (case addonStore w (ns, n) of
        None \<Rightarrow> False
      | Some a \<Rightarrow>
          Name a = n \<and>
          (case FindStatusCondition (Conditions (AddonStatus a)) (Type cond) of
             None \<Rightarrow> False
           | Some c \<Rightarrow> Status c = Status cond \<and> Reason c = Reason cond))"

text \<open>The leases labelled for an add-on: those of the cache, in any namespace, that carry
  the label \<^verbatim>\<open>open-cluster-management-addon\<close> with the name of the add-on; and the
  selector that picks them.\<close>

definition addonLeaseSelector :: "string \<Rightarrow> (string \<rightharpoonup> string) \<Rightarrow> bool" where
  "addonLeaseSelector addonName labels \<longleftrightarrow>
     labels ''open-cluster-management-addon'' = Some addonName"

definition leasesLabelledFor :: "world \<Rightarrow> string \<Rightarrow> lease list" where
  "leasesLabelledFor w addonName = filter (\<lambda>l. addonLeaseSelector addonName (Labels l)) (leaseCache w)"

text \<open>The condition section 4.7 of the specification asks for, given the leases
  labelled for an add-on: not found without a lease, updated when the renew time of some
  lease plus five times sixty seconds is still ahead, stopped otherwise.\<close>

definition specDegradedCondition :: "gotime \<Rightarrow> lease list \<Rightarrow> condition" where
  "specDegradedCondition now leases =
     (if leases = [] then AddonLeaseNotFound
      else if \<exists>l \<in> set leases. \<exists>r. RenewTime l = Some r \<and> now < r + 5 * 60 * Second
      then ManagedClusterLeaseUpdated
      else AddonLeaseUpdateStopped)"

section \<open>Objects and worlds for concrete runs\<close>

text \<open>Objects as the test helpers of the repository build them
  (\<^verbatim>\<open>NewManagedCluster\<close>, \<^verbatim>\<open>NewAddon\<close>, \<^verbatim>\<open>NewManifestWork\<close>, \<^verbatim>\<open>NewAddonLease\<close>,
  \<^verbatim>\<open>NewCSR\<close>), and a world that holds nothing.\<close>

definition NewManagedCluster :: "string \<Rightarrow> managed_cluster" where
  "NewManagedCluster n =
     \<lparr>Name = n, Namespace = [], Labels = Map.empty, Annotations = Map.empty,
      Finalizers = [], DeletionTimestamp = None, ResourceVersion = 1,
      LeaseDurationSeconds = 0\<rparr>"

definition NewAddon :: "string \<Rightarrow> string \<Rightarrow> addon" where
  "NewAddon ns n =
     \<lparr>Name = n, Namespace = ns, Labels = Map.empty, Annotations = Map.empty,
      Finalizers = [], DeletionTimestamp = None, ResourceVersion = 1,
      AddonStatus = \<lparr>Conditions = [], RelatedObjects = []\<rparr>\<rparr>"

definition NewManifestWork ::
  "string \<Rightarrow> string \<Rightarrow> string \<Rightarrow> gotime option \<Rightarrow> bytes list \<Rightarrow> manifest_work" where
  "NewManifestWork ns n addonName deletionTimestamp payload =
     \<lparr>Name = n, Namespace = ns, Labels = [AddonWorkLabel \<mapsto> addonName],
      Annotations = Map.empty, Finalizers = [], DeletionTimestamp = deletionTimestamp,
      ResourceVersion = 1, Manifests = payload\<rparr>"

definition NewAddonLease :: "string \<Rightarrow> string \<Rightarrow> string \<Rightarrow> gotime option \<Rightarrow> lease" where
  "NewAddonLease ns n addonName renewTime =
     \<lparr>Name = n, Namespace = ns, Labels = [''open-cluster-management-addon'' \<mapsto> addonName],
      Annotations = Map.empty, Finalizers = [], DeletionTimestamp = None,
      ResourceVersion = 1, HolderIdentity = None, RenewTime = renewTime\<rparr>"

definition NewAddonManagerLease :: "string \<Rightarrow> gotime option \<Rightarrow> lease" where
  "NewAddonManagerLease ns renewTime =
     \<lparr>Name = ''addon-lease'', Namespace = ns, Labels = Map.empty,
      Annotations = Map.empty, Finalizers = [], DeletionTimestamp = None,
      ResourceVersion = 1, HolderIdentity = None, RenewTime = renewTime\<rparr>"

definition NewCSR ::
  "string \<Rightarrow> (string \<rightharpoonup> string) \<Rightarrow> string \<Rightarrow> string \<Rightarrow> csr_condition list \<Rightarrow> csr" where
  "NewCSR n labels signerName username conditions =
     \<lparr>Name = n, Namespace = [], Labels = labels, Annotations = Map.empty,
      Finalizers = [], DeletionTimestamp = None, ResourceVersion = 1,
      Request = [], SignerName = signerName, Username = username, UID = [],
      Groups = [], Extra = Map.empty, CsrConditions = conditions\<rparr>"

definition csrCondition :: "string \<Rightarrow> csr_condition" where
  "csrCondition t = \<lparr>CsrType = t, CsrStatus = ConditionTrue, CsrReason = [], CsrMessage = []\<rparr>"

definition emptyWorld :: world where
  "emptyWorld =
     \<lparr>clusterCache = [], addonCache = [], workCache = [], leaseCache = [], configCache = [],
      addonStore = Map.empty, clusterManagementStore = Map.empty, workStore = Map.empty,
      leaseStore = Map.empty, csrStore = Map.empty,
      reviewAccess = (\<lambda>_. Inr True), actions = []\<rparr>"

definition NewClusterManagementAddOn :: "string \<Rightarrow> cluster_management_addon" where
  "NewClusterManagementAddOn n =
     \<lparr>Name = n, Namespace = [], Labels = Map.empty, Annotations = Map.empty,
      Finalizers = [], DeletionTimestamp = None, ResourceVersion = 1,
      CRDName = [], CRName = []\<rparr>"

text \<open>The add-on of \<^verbatim>\<open>examples/helloworld\<close>: one config map as its manifest; \<open>enc\<close>
  stands for the JSON encoder.\<close>

definition helloWorld :: "(k8s_object \<Rightarrow> error + bytes) \<Rightarrow> deploy_controller" where
  "helloWorld enc =
     \<lparr>deploy_addonName = ''helloworld'',
      AgentManifests = (\<lambda>cluster config. ([K8sObject ''ConfigMap'' ''default'' ''hello-world''], None)),
      hasConfigLister = False,
      Encode = enc,
      NewRequirement = (\<lambda>key val. None)\<rparr>"

text \<open>A hub with the cluster \<^verbatim>\<open>cluster1\<close> and the add-on \<open>a\<close> in its namespace.\<close>

definition hubWith :: "addon \<Rightarrow> world" where
  "hubWith a =
     emptyWorld\<lparr>clusterCache := [NewManagedCluster ''cluster1''],
                addonCache := [a],
                addonStore := [(''cluster1'', Name a) \<mapsto> a],
                clusterManagementStore := [Name a \<mapsto> NewClusterManagementAddOn (Name a)]\<rparr>"

text \<open>The add-on \<^verbatim>\<open>helloworld\<close> of \<^verbatim>\<open>cluster1\<close>, installed (it carries the deploy
  finalizer) and being deleted, and the two envelopes used below.\<close>

definition installedAddon :: addon where
  "installedAddon = (NewAddon ''cluster1'' ''helloworld'')\<lparr>Finalizers := [addonFinalizer]\<rparr>"

definition deletingAddon :: addon where
  "deletingAddon = installedAddon\<lparr>DeletionTimestamp := Some 1700\<rparr>"

definition deployEnvelope :: manifest_work where
  "deployEnvelope =
     NewManifestWork ''cluster1'' ''addon-helloworld-deploy'' ''helloworld'' None []"

definition deletedEnvelope :: manifest_work where
  "deletedEnvelope = NewManifestWork ''cluster1'' ''another'' ''helloworld'' (Some 1600) []"

text \<open>A JSON encoder that yields \<^verbatim>\<open>{}\<close> for every object, and one that fails.\<close>

definition encodeBraces :: "k8s_object \<Rightarrow> error + bytes" where
  "encodeBraces obj = Inr [123, 125]"

definition encodeFails :: "k8s_object \<Rightarrow> error + bytes" where
  "encodeFails obj = Inl (Failure ''json: unsupported value'')"

text \<open>
  A stand-in for the X.509 library: every non-empty request decodes to one
  \<^verbatim>\<open>CERTIFICATE REQUEST\<close> block, which parses to the subject of the agent \<^verbatim>\<open>agent1\<close>
  of \<^verbatim>\<open>helloworld\<close> on \<^verbatim>\<open>cluster1\<close>.
\<close>

definition agentSubject :: string where
  "agentSubject = AgentGroup ''cluster1'' ''helloworld'' @ '':agent:agent1''"

definition exampleX509 :: x509_library where
  "exampleX509 =
     \<lparr>pemDecode =
        (\<lambda>request. if request = [] then None
                    else Some \<lparr>BlockType = ''CERTIFICATE REQUEST'', BlockBytes = request\<rparr>),
      ParseCertificateRequest =
        (\<lambda>der. Inr \<lparr>CommonName = agentSubject,
                      Organization = [AgentGroup ''cluster1'' ''helloworld'']\<rparr>)\<rparr>"

text \<open>The approver as \<^verbatim>\<open>examples/helloworld\<close> configures it: the default signer and
  one approve check that accepts every request.\<close>

definition helloWorldApprover :: csr_controller where
  "helloWorldApprover =
     NewCSRApprovingController exampleX509 ''kubernetes.io/kube-apiserver-client''
       ''helloworld'' [\<lambda>csr. True]"

text \<open>An approver without approve checks of its own.\<close>

definition renewalOnlyApprover :: csr_controller where
  "renewalOnlyApprover =
     NewCSRApprovingController exampleX509 ''kubernetes.io/kube-apiserver-client''
       ''helloworld'' []"

text \<open>A request of the agent with no condition yet, the same request denied, and a
  denied request without the cluster label.\<close>

definition renewalCSR :: csr where
  "renewalCSR =
     (NewCSR ''addon-helloworld-cluster1-x2k9f'' [spokeClusterNameLabel \<mapsto> ''cluster1'']
        ''kubernetes.io/kube-apiserver-client'' agentSubject [])\<lparr>Request := [45]\<rparr>"

definition deniedRenewalCSR :: csr where
  "deniedRenewalCSR = renewalCSR\<lparr>CsrConditions := [csrCondition CertificateDenied]\<rparr>"

definition deniedCSR :: csr where
  "deniedCSR =
     NewCSR ''addon-helloworld-cluster1-x2k9f'' Map.empty
       ''kubernetes.io/kube-apiserver-client'' ''someone'' [csrCondition CertificateDenied]"

definition approvedCondition :: csr_condition where
  "approvedCondition =
     \<lparr>CsrType = CertificateApproved,
      CsrStatus = ConditionTrue,
      CsrReason = ''AutoApprovedByHubCSRApprovingController'',
      CsrMessage = ''Auto approving addon agent certificate after SubjectAccessReview.''\<rparr>"

text \<open>The agent of \<^verbatim>\<open>cluster1\<close> with no certificate manager started, and the add-on
  before the hub has annotated it with \<^verbatim>\<open>enable_registration\<close>.\<close>

definition spokeAgent :: certificate_manager_controller where
  "spokeAgent =
     \<lparr>certmgr_clusterName = ''cluster1'',
      csrControllers = [],
      startCertificateManager = (\<lambda>addonName addon w. None)\<rparr>"

definition unannotatedAddon :: addon where
  "unannotatedAddon =
     (NewAddon ''cluster1'' ''helloworld'')\<lparr>Annotations := [''owner'' \<mapsto> ''team-a'']\<rparr>"

text \<open>The configuration controller of \<^verbatim>\<open>helloworld\<close> with registration enabled and
  an add-on that supplies no bootstrap kubeconfig.\<close>

definition helloWorldConfig :: config_controller where
  "helloWorldConfig =
     NewAddonConfigController ''helloworld'' True ''default'' (\<lambda>cluster. Inr [])"



text \<open>A hub whose lease cache holds the lease \<^verbatim>\<open>addon-lease\<close> of \<^verbatim>\<open>cluster1\<close>, renewed at
  \<open>renewTime\<close>, next to the add-on \<^verbatim>\<open>helloworld\<close>; and \<^verbatim>\<open>cluster1\<close> with a lease
  duration of 429496730 seconds.\<close>

definition hubWithLease :: "gotime \<Rightarrow> world" where
  "hubWithLease renewTime =
     (hubWith (NewAddon ''cluster1'' ''helloworld''))
       \<lparr>leaseCache := [NewAddonManagerLease ''cluster1'' (Some renewTime)]\<rparr>"

definition longLeaseCluster :: managed_cluster where
  "longLeaseCluster = (NewManagedCluster ''cluster1'')\<lparr>LeaseDurationSeconds := 429496730\<rparr>"

text \<open>The lease controller of the hub as the test of its package builds it, with the
  lister of the cluster informer.\<close>

definition testLeaseController :: lease_controller where
  "testLeaseController = \<lparr>clusterLister = Some clusterCache\<rparr>"

text \<open>
  A stand-in for \<^verbatim>\<open>labels.Parse\<close> that reads \<^verbatim>\<open>key=value\<close>, split at the first
  \<^verbatim>\<open>=\<close>, as the selector of the objects that carry the label \<^verbatim>\<open>key\<close> with that
  value, and refuses what holds no \<^verbatim>\<open>=\<close>; and the lease controller of the agent of
  \<^verbatim>\<open>cluster1\<close> with it.
\<close>

definition parseEquality :: "string \<Rightarrow> error + ((string \<rightharpoonup> string) \<Rightarrow> bool)" where
  "parseEquality selector =
     (let key = takeWhile (\<lambda>c. c \<noteq> CHR ''='') selector;
          rest = dropWhile (\<lambda>c. c \<noteq> CHR ''='') selector
      in if rest = [] then Inl (Failure ''unable to parse requirement'')
         else Inr (\<lambda>labels. labels key = Some (tl rest)))"

definition spokeLeaseAgent :: addon_lease_controller where
  "spokeLeaseAgent = \<lparr>lease_clusterName = ''cluster1'', Parse = parseEquality\<rparr>"

text \<open>The spoke \<^verbatim>\<open>cluster1\<close> with two leases labelled for \<^verbatim>\<open>helloworld\<close>: the first
  carries no renew time, the second was renewed at the hundredth second.\<close>

definition spokeWithLeases :: world where
  "spokeWithLeases =
     (hubWith (NewAddon ''cluster1'' ''helloworld''))
       \<lparr>leaseCache :=
          [NewAddonLease ''ns1'' ''open-cluster-management-addon-helloworld'' ''helloworld'' None,
           NewAddonLease ''ns2'' ''open-cluster-management-addon-helloworld'' ''helloworld''
             (Some (100 * Second))]\<rparr>"

section \<open>Finalizer removal\<close>

lemma copyFinalizers_filter:
  "copyFinalizers fin copied fs = copied @ filter (\<lambda>f. f \<noteq> fin) fs"
  by (induction fs arbitrary: copied) simp_all

lemma length_filter_neq_iff:
  "length xs \<noteq> length (filter (\<lambda>f. f \<noteq> fin) xs) \<longleftrightarrow> fin \<in> set xs"
proof (induction xs)
  case Nil
  show ?case by simp
next
  case (Cons x xs)
  have le: "length (filter (\<lambda>f. f \<noteq> fin) xs) \<le> length xs"
    by (rule length_filter_le)
  show ?case
  proof (cases "x = fin")
    case True
    from le have "Suc (length xs) \<noteq> length (filter (\<lambda>f. f \<noteq> fin) xs)"
      by arith
    with True show ?thesis by simp
  next
    case False
    with Cons show ?thesis by simp
  qed
qed

lemma actions_addonUpdate:
  "actions (snd (addonUpdate ns a w)) = actions w @ [UpdateAddon ns a]"
  by (simp add: addonUpdate_def record_action_def Let_def split: option.splits)

lemma hasFinalizer_iff: "hasFinalizer fin fs \<longleftrightarrow> fin \<in> set fs"
  by (induction fs) auto

lemma removeAddonFinalizer_eq:
  "removeAddonFinalizer a w =
     (if addonFinalizer \<in> set (Finalizers a)
      then (case addonUpdate (Namespace a)
                   (a\<lparr>Finalizers := filter (\<lambda>f. f \<noteq> addonFinalizer) (Finalizers a)\<rparr>) w of
              (r, w') \<Rightarrow> (err_of r, w'))
      else (None, w))"
  by (simp add: removeAddonFinalizer_def copyFinalizers_filter length_filter_neq_iff)

lemma actions_removeAddonFinalizer:
  "actions (snd (removeAddonFinalizer a w)) =
     actions w @
     (if addonFinalizer \<in> set (Finalizers a)
      then [UpdateAddon (Namespace a)
              (a\<lparr>Finalizers := filter (\<lambda>f. f \<noteq> addonFinalizer) (Finalizers a)\<rparr>)]
      else [])"
  by (simp add: removeAddonFinalizer_eq actions_addonUpdate split: prod.splits)
     (metis actions_addonUpdate snd_conv)

lemma removeRegistrationFinalizer_eq:
  "removeRegistrationFinalizer a w =
     (if registrationFinalizer \<in> set (Finalizers a)
      then (case addonUpdate (Namespace a)
                   (a\<lparr>Finalizers := filter (\<lambda>f. f \<noteq> registrationFinalizer) (Finalizers a)\<rparr>) w of
              (r, w') \<Rightarrow> (err_of r, w'))
      else (None, w))"
  by (simp add: removeRegistrationFinalizer_def copyFinalizers_filter length_filter_neq_iff)

lemma actions_removeRegistrationFinalizer:
  "actions (snd (removeRegistrationFinalizer a w)) =
     actions w @
     (if registrationFinalizer \<in> set (Finalizers a)
      then [UpdateAddon (Namespace a)
              (a\<lparr>Finalizers := filter (\<lambda>f. f \<noteq> registrationFinalizer) (Finalizers a)\<rparr>)]
      else [])"
  by (simp add: removeRegistrationFinalizer_eq actions_addonUpdate split: prod.splits)
     (metis actions_addonUpdate snd_conv)

text \<open>
  Claim C9.  For every add-on \<open>a\<close>, \<^verbatim>\<open>removeAddonFinalizer\<close> of the deploy controller
  and \<^verbatim>\<open>removeRegistrationFinalizer\<close> of the registration controller issue one
  update if their own finalizer occurs in the list of \<open>a\<close> and none otherwise.  The
  object of the update is \<open>a\<close> with nothing but \<open>Finalizers\<close> replaced, and the new
  list is the old one filtered: every occurrence of the finalizer is gone and the other
  finalizers keep their order.  Without the finalizer the world stays as it is.
\<close>

theorem finalizer_removal_frame:
  "actions (snd (removeAddonFinalizer a w)) =
     actions w @
     (if addonFinalizer \<in> set (Finalizers a)
      then [UpdateAddon (Namespace a)
              (a\<lparr>Finalizers := filter (\<lambda>f. f \<noteq> addonFinalizer) (Finalizers a)\<rparr>)]
      else [])
   \<and> actions (snd (removeRegistrationFinalizer a w)) =
     actions w @
     (if registrationFinalizer \<in> set (Finalizers a)
      then [UpdateAddon (Namespace a)
              (a\<lparr>Finalizers := filter (\<lambda>f. f \<noteq> registrationFinalizer) (Finalizers a)\<rparr>)]
      else [])
   \<and> (addonFinalizer \<notin> set (Finalizers a) \<longrightarrow> removeAddonFinalizer a w = (None, w))
   \<and> (registrationFinalizer \<notin> set (Finalizers a) \<longrightarrow>
        removeRegistrationFinalizer a w = (None, w))"
proof (intro conjI)
  show "actions (snd (removeAddonFinalizer a w)) =
     actions w @
     (if addonFinalizer \<in> set (Finalizers a)
      then [UpdateAddon (Namespace a)
              (a\<lparr>Finalizers := filter (\<lambda>f. f \<noteq> addonFinalizer) (Finalizers a)\<rparr>)]
      else [])"
    by (rule actions_removeAddonFinalizer)
  show "actions (snd (removeRegistrationFinalizer a w)) =
     actions w @
     (if registrationFinalizer \<in> set (Finalizers a)
      then [UpdateAddon (Namespace a)
              (a\<lparr>Finalizers := filter (\<lambda>f. f \<noteq> registrationFinalizer) (Finalizers a)\<rparr>)]
      else [])"
    by (rule actions_removeRegistrationFinalizer)
  show "addonFinalizer \<notin> set (Finalizers a) \<longrightarrow> removeAddonFinalizer a w = (None, w)"
    by (simp add: removeAddonFinalizer_eq)
  show "registrationFinalizer \<notin> set (Finalizers a) \<longrightarrow>
        removeRegistrationFinalizer a w = (None, w)"
    by (simp add: removeRegistrationFinalizer_eq)
qed

theorem finalizer_removal_frame_witness:
  "actions (snd (removeAddonFinalizer
      ((NewAddon ''cluster1'' ''helloworld'')
         \<lparr>Finalizers := [''first'', addonFinalizer, ''second'', addonFinalizer]\<rparr>)
      emptyWorld)) =
     [UpdateAddon ''cluster1''
        ((NewAddon ''cluster1'' ''helloworld'')\<lparr>Finalizers := [''first'', ''second'']\<rparr>)]
   \<and> removeRegistrationFinalizer
        ((NewAddon ''cluster1'' ''helloworld'')
           \<lparr>Finalizers := [''first'', addonFinalizer, ''second'', addonFinalizer]\<rparr>)
        emptyWorld = (None, emptyWorld)"
  using finalizer_removal_frame
    [of "(NewAddon ''cluster1'' ''helloworld'')
           \<lparr>Finalizers := [''first'', addonFinalizer, ''second'', addonFinalizer]\<rparr>" emptyWorld]
  by (simp add: NewAddon_def emptyWorld_def addonFinalizer_def registrationFinalizer_def)

section \<open>The deploy controller: teardown\<close>

lemma lister_get_Inr:
  "lister_get cache ns n = Inr x \<Longrightarrow> Namespace x = ns \<and> Name x = n \<and> x \<in> set cache"
  by (auto simp: lister_get_def find_Some_iff split: option.splits)

lemma actions_workDelete:
  "actions (snd (workDelete ns n w)) = actions w @ [DeleteWork ns n]"
  by (simp add: workDelete_def record_action_def Let_def split: option.splits)

lemma actions_deleteWorks:
  "actions (deleteWorks ns works w) =
     actions w @ map (\<lambda>wk. DeleteWork ns (Name wk))
                     (filter (\<lambda>wk. IsZero (DeletionTimestamp wk)) works)"
  by (induction works arbitrary: w) (simp_all add: actions_workDelete)

lemma sync_deleting:
  assumes "lister_get (clusterCache w) [] k = Inr mc"
    and "lister_get (addonCache w) k (deploy_addonName c) = Inr a"
    and "\<not> IsZero (DeletionTimestamp a)"
  shows "addonDeployController_sync c k w =
           (case removeAddonResources c mc w of
              (Some e, w') \<Rightarrow> (Some e, w')
            | (None, w') \<Rightarrow> removeAddonFinalizer a w')"
  using assms by (simp add: addonDeployController_sync_def)

lemmas example_defs =
  hubWith_def emptyWorld_def NewManagedCluster_def NewAddon_def NewManifestWork_def
  NewClusterManagementAddOn_def installedAddon_def deletingAddon_def deployEnvelope_def
  deletedEnvelope_def helloWorld_def encodeBraces_def encodeFails_def

text \<open>
  Claim C4, as amended.  In a reconcile of the deploy controller where the lister returns
  the cluster and the add-on, the add-on has a non-zero deletion timestamp and the add-on
  name is accepted as a label value: the write calls are a delete for every listed
  envelope (the envelopes of the cluster namespace labelled for the add-on) that has no
  deletion timestamp, in the order listed, followed by the update that removes the deploy
  finalizer exactly when the list is empty and the add-on carries the finalizer; and
  whenever the list is not empty the reconcile returns the error
  \<open>WorkStillDeleting\<close>.
\<close>

theorem deploy_teardown:
  assumes cl: "lister_get (clusterCache w) [] k = Inr mc"
    and ad: "lister_get (addonCache w) k (deploy_addonName c) = Inr a"
    and del: "\<not> IsZero (DeletionTimestamp a)"
    and req: "NewRequirement c AddonWorkLabel (deploy_addonName c) = None"
  shows "actions (snd (addonDeployController_sync c k w)) =
           actions w
           @ map (\<lambda>wk. DeleteWork k (Name wk))
                 (filter (\<lambda>wk. IsZero (DeletionTimestamp wk))
                         (workLister_List w k AddonWorkLabel (deploy_addonName c)))
           @ (if workLister_List w k AddonWorkLabel (deploy_addonName c) = []
                 \<and> addonFinalizer \<in> set (Finalizers a)
              then [UpdateAddon k
                      (a\<lparr>Finalizers := filter (\<lambda>f. f \<noteq> addonFinalizer) (Finalizers a)\<rparr>)]
              else [])
       \<and> (workLister_List w k AddonWorkLabel (deploy_addonName c) \<noteq> [] \<longrightarrow>
            fst (addonDeployController_sync c k w) =
              Some (WorkStillDeleting
                      (length (workLister_List w k AddonWorkLabel (deploy_addonName c)))
                      (deploy_addonName c)))"
proof -
  from cl have mc: "Name mc = k" by (simp add: lister_get_Inr)
  from ad have ns: "Namespace a = k" by (simp add: lister_get_Inr)
  show ?thesis
  proof (cases "workLister_List w k AddonWorkLabel (deploy_addonName c) = []")
    case True
    with req mc have "removeAddonResources c mc w = (None, w)"
      by (simp add: removeAddonResources_def Let_def)
    with True ns show ?thesis
      by (simp add: sync_deleting [OF cl ad del] actions_removeAddonFinalizer)
  next
    case False
    with req mc have "removeAddonResources c mc w =
        (Some (WorkStillDeleting
                 (length (workLister_List w k AddonWorkLabel (deploy_addonName c)))
                 (deploy_addonName c)),
         deleteWorks k (workLister_List w k AddonWorkLabel (deploy_addonName c)) w)"
      by (simp add: removeAddonResources_def Let_def)
    with False show ?thesis
      by (simp add: sync_deleting [OF cl ad del] actions_deleteWorks)
  qed
qed

theorem deploy_teardown_witness:
  "actions (snd (addonDeployController_sync (helloWorld encodeBraces) ''cluster1''
      ((hubWith deletingAddon)\<lparr>workCache := [deployEnvelope, deletedEnvelope]\<rparr>))) =
     [DeleteWork ''cluster1'' ''addon-helloworld-deploy'']
   \<and> fst (addonDeployController_sync (helloWorld encodeBraces) ''cluster1''
      ((hubWith deletingAddon)\<lparr>workCache := [deployEnvelope, deletedEnvelope]\<rparr>)) =
     Some (WorkStillDeleting 2 ''helloworld'')"
proof -
  let ?w = "(hubWith deletingAddon)\<lparr>workCache := [deployEnvelope, deletedEnvelope]\<rparr>"
  let ?c = "helloWorld encodeBraces"
  have cl: "lister_get (clusterCache ?w) [] ''cluster1'' = Inr (NewManagedCluster ''cluster1'')"
    by (simp add: example_defs lister_get_def)
  have ad: "lister_get (addonCache ?w) ''cluster1'' (deploy_addonName ?c) = Inr deletingAddon"
    by (simp add: example_defs lister_get_def)
  have del: "\<not> IsZero (DeletionTimestamp deletingAddon)"
    by (simp add: example_defs IsZero_def zeroTime_def)
  have req: "NewRequirement ?c AddonWorkLabel (deploy_addonName ?c) = None"
    by (simp add: example_defs)
  have works: "workLister_List ?w ''cluster1'' AddonWorkLabel (deploy_addonName ?c) =
      [deployEnvelope, deletedEnvelope]"
    by (simp add: workLister_List_def example_defs)
  show ?thesis
    using deploy_teardown [OF cl ad del req]
    by (simp add: works) (simp add: example_defs IsZero_def zeroTime_def)
qed

text \<open>
  The claim as stated leaves the cluster out.  When the cluster is gone from the cache,
  \<^verbatim>\<open>sync\<close> returns nil before it looks at the add-on: the add-on below is being
  deleted and one envelope without deletion timestamp is listed for it, yet no delete is
  issued and no error is returned.
\<close>

theorem deploy_teardown_counterexample:
  "lister_get (addonCache ((hubWith deletingAddon)\<lparr>clusterCache := [], workCache := [deployEnvelope]\<rparr>))
     ''cluster1'' ''helloworld'' = Inr deletingAddon
   \<and> \<not> IsZero (DeletionTimestamp deletingAddon)
   \<and> workLister_List ((hubWith deletingAddon)\<lparr>clusterCache := [], workCache := [deployEnvelope]\<rparr>)
       ''cluster1'' AddonWorkLabel ''helloworld'' = [deployEnvelope]
   \<and> IsZero (DeletionTimestamp deployEnvelope)
   \<and> addonDeployController_sync (helloWorld encodeBraces) ''cluster1''
       ((hubWith deletingAddon)\<lparr>clusterCache := [], workCache := [deployEnvelope]\<rparr>) =
     (None, (hubWith deletingAddon)\<lparr>clusterCache := [], workCache := [deployEnvelope]\<rparr>)"
  by (simp add: addonDeployController_sync_def lister_get_def example_defs
        workLister_List_def IsZero_def zeroTime_def IsNotFound_def)

section \<open>The deploy controller: delivering the manifests\<close>

lemma manifestsLoop_eq: "length new = length old \<Longrightarrow> manifestsLoop new old \<longleftrightarrow> new = old"
  by (induction new old rule: manifestsLoop.induct) auto

lemma ManifestsEqual_iff: "ManifestsEqual new old \<longleftrightarrow> new = old"
  by (auto simp: ManifestsEqual_def manifestsLoop_eq)

lemma encodeObjects_all2:
  "list_all2 (\<lambda>obj raw. enc obj = Inr raw) objs payload \<Longrightarrow>
     encodeObjects enc ms objs = Inr (ms @ payload)"
proof (induction objs arbitrary: ms payload)
  case Nil
  then show ?case by simp
next
  case (Cons obj objs)
  then obtain raw rest where p: "payload = raw # rest" "enc obj = Inr raw"
      "list_all2 (\<lambda>obj raw. enc obj = Inr raw) objs rest"
    by (auto simp: list_all2_Cons1)
  with Cons.IH [of rest "ms @ [raw]"] show ?case by simp
qed

lemma build_work:
  assumes "objs \<noteq> []" and "list_all2 (\<lambda>obj raw. Encode c obj = Inr raw) objs payload"
  shows "buildManifestWorkFromObject c k objs = Inr (Some (deployWork c k payload))"
  using assms encodeObjects_all2 [of "Encode c" objs payload "[]"]
  by (simp add: buildManifestWorkFromObject_def deployWork_def)

lemma sync_apply:
  assumes "lister_get (clusterCache w) [] k = Inr mc"
    and "lister_get (addonCache w) k (deploy_addonName c) = Inr a"
    and "IsZero (DeletionTimestamp a)"
    and "addonFinalizer \<in> set (Finalizers a)"
    and "clusterManagementStore w (deploy_addonName c) = Some cm"
    and "getAddonConfig c w (CRDName cm) (CRName cm) k = Inr config"
    and "fst (AgentManifests c mc config) \<noteq> []"
    and "list_all2 (\<lambda>obj raw. Encode c obj = Inr raw) (fst (AgentManifests c mc config)) payload"
  shows "addonDeployController_sync c k w =
     (case workStore w (k, Name (deployWork c k payload)) of
        None \<Rightarrow> (case workCreate k (deployWork c k payload) w of (r, w') \<Rightarrow> (err_of r, w'))
      | Some existingWork \<Rightarrow>
          if Manifests existingWork = payload then (None, w)
          else
            (case workUpdate k
                    ((deployWork c k payload)\<lparr>ResourceVersion := ResourceVersion existingWork\<rparr>) w of
               (r, w') \<Rightarrow> (err_of r, w')))"
  using assms
  by (simp add: addonDeployController_sync_def hasFinalizer_iff store_get_def build_work
        ManifestsEqual_iff IsNotFound_def split: option.splits)
     (simp add: deployWork_def)

lemma workCreate_frame:
  "clusterCache (snd (workCreate ns wk w)) = clusterCache w"
  "addonCache (snd (workCreate ns wk w)) = addonCache w"
  "configCache (snd (workCreate ns wk w)) = configCache w"
  "clusterManagementStore (snd (workCreate ns wk w)) = clusterManagementStore w"
  "actions (snd (workCreate ns wk w)) = actions w @ [CreateWork ns wk]"
  by (simp_all add: workCreate_def record_action_def Let_def split: option.splits)

lemma workUpdate_frame:
  "clusterCache (snd (workUpdate ns wk w)) = clusterCache w"
  "addonCache (snd (workUpdate ns wk w)) = addonCache w"
  "configCache (snd (workUpdate ns wk w)) = configCache w"
  "clusterManagementStore (snd (workUpdate ns wk w)) = clusterManagementStore w"
  "actions (snd (workUpdate ns wk w)) = actions w @ [UpdateWork ns wk]"
  by (simp_all add: workUpdate_def record_action_def Let_def split: option.splits)

lemma workCreate_stored:
  "workStore w (ns, Name wk) = None \<Longrightarrow>
     \<exists>stored. workStore (snd (workCreate ns wk w)) (ns, Name wk) = Some stored
              \<and> Manifests stored = Manifests wk"
  by (simp add: workCreate_def record_action_def Let_def)

lemma workUpdate_stored:
  "workStore w (ns, Name wk) = Some old \<Longrightarrow> ResourceVersion wk = ResourceVersion old \<Longrightarrow>
     \<exists>stored. workStore (snd (workUpdate ns wk w)) (ns, Name wk) = Some stored
              \<and> Manifests stored = Manifests wk"
  by (simp add: workUpdate_def record_action_def Let_def)

lemma getAddonConfig_cong:
  "configCache w' = configCache w \<Longrightarrow> getAddonConfig c w' = getAddonConfig c w"
  by (simp add: getAddonConfig_def fun_eq_iff)

text \<open>
  Claim C3, as amended.  In a reconcile of the deploy controller where the lister returns
  the cluster and an add-on that is not being deleted and carries the deploy finalizer,
  the \<^verbatim>\<open>ClusterManagementAddOn\<close> of the add-on exists, its configuration loads, the
  manifest supplier returns a non-empty list and every object of it encodes (\<open>payload\<close>
  is the list of the encodings): if no envelope \<^verbatim>\<open>addon-<add-on>-deploy\<close> is stored, the
  envelope with the payload is created; if one is stored whose manifests differ from the
  payload, the envelope is updated with the stored resource version; if the stored
  manifests equal the payload, nothing is written and the world is unchanged.  A second
  reconcile of the same key on the world the first one left writes nothing.
\<close>

theorem deploy_apply_envelope:
  assumes cl: "lister_get (clusterCache w) [] k = Inr mc"
    and ad: "lister_get (addonCache w) k (deploy_addonName c) = Inr a"
    and live: "IsZero (DeletionTimestamp a)"
    and fin: "addonFinalizer \<in> set (Finalizers a)"
    and cma: "clusterManagementStore w (deploy_addonName c) = Some cm"
    and cfg: "getAddonConfig c w (CRDName cm) (CRName cm) k = Inr config"
    and objs: "fst (AgentManifests c mc config) \<noteq> []"
    and enc: "list_all2 (\<lambda>obj raw. Encode c obj = Inr raw) (fst (AgentManifests c mc config)) payload"
  shows "(workStore w (k, ''addon-'' @ deploy_addonName c @ ''-deploy'') = None \<longrightarrow>
            actions (snd (addonDeployController_sync c k w)) =
              actions w @ [CreateWork k (deployWork c k payload)])
       \<and> (\<forall>existing. workStore w (k, ''addon-'' @ deploy_addonName c @ ''-deploy'') = Some existing \<longrightarrow>
            (Manifests existing \<noteq> payload \<longrightarrow>
               actions (snd (addonDeployController_sync c k w)) =
                 actions w @ [UpdateWork k ((deployWork c k payload)
                                              \<lparr>ResourceVersion := ResourceVersion existing\<rparr>)])
          \<and> (Manifests existing = payload \<longrightarrow> addonDeployController_sync c k w = (None, w)))
       \<and> addonDeployController_sync c k (snd (addonDeployController_sync c k w)) =
            (None, snd (addonDeployController_sync c k w))"
proof -
  let ?work = "deployWork c k payload"
  let ?w1 = "snd (addonDeployController_sync c k w)"
  have nm: "Name ?work = ''addon-'' @ deploy_addonName c @ ''-deploy''"
    and mf: "Manifests ?work = payload"
    by (simp_all add: deployWork_def)
  note first = sync_apply [OF cl ad live fin cma cfg objs enc]
  have create: "actions ?w1 = actions w @ [CreateWork k ?work]"
    if "workStore w (k, Name ?work) = None"
    using that first by (simp add: workCreate_frame split: prod.splits)
       (metis workCreate_frame(5) snd_conv)
  have update: "actions ?w1 =
      actions w @ [UpdateWork k (?work\<lparr>ResourceVersion := ResourceVersion existing\<rparr>)]"
    if "workStore w (k, Name ?work) = Some existing" "Manifests existing \<noteq> payload" for existing
    using that first by (simp split: prod.splits) (metis workUpdate_frame(5) snd_conv)
  have noop: "addonDeployController_sync c k w = (None, w)"
    if "workStore w (k, Name ?work) = Some existing" "Manifests existing = payload" for existing
    using that first by simp
  have frame: "clusterCache ?w1 = clusterCache w \<and> addonCache ?w1 = addonCache w
      \<and> configCache ?w1 = configCache w
      \<and> clusterManagementStore ?w1 = clusterManagementStore w
      \<and> (\<exists>stored. workStore ?w1 (k, Name ?work) = Some stored \<and> Manifests stored = payload)"
  proof (cases "workStore w (k, Name ?work)")
    case None
    then have "?w1 = snd (workCreate k ?work w)"
      using first by (simp split: prod.splits)
    with workCreate_stored [OF None] mf show ?thesis
      by (simp add: workCreate_frame)
  next
    case (Some existing)
    show ?thesis
    proof (cases "Manifests existing = payload")
      case True
      with Some noop [OF Some True] show ?thesis by simp
    next
      case False
      let ?upd = "?work\<lparr>ResourceVersion := ResourceVersion existing\<rparr>"
      have "?w1 = snd (workUpdate k ?upd w)"
        using first Some False by (simp split: prod.splits)
      moreover have "\<exists>stored. workStore (snd (workUpdate k ?upd w)) (k, Name ?upd) = Some stored
              \<and> Manifests stored = Manifests ?upd"
        by (rule workUpdate_stored [of w k ?upd existing]) (simp_all add: Some)
      ultimately show ?thesis using mf
        by (simp add: workUpdate_frame)
    qed
  qed
  then obtain stored where st: "workStore ?w1 (k, Name ?work) = Some stored"
      "Manifests stored = payload"
    by blast
  from frame have cfg1: "getAddonConfig c ?w1 (CRDName cm) (CRName cm) k = Inr config"
    using cfg getAddonConfig_cong [of ?w1 w c] by simp
  have second: "addonDeployController_sync c k ?w1 = (None, ?w1)"
    using sync_apply [of ?w1 k mc c a cm config payload] frame cl ad live fin cma cfg1 objs enc st
    by simp
  from create update noop second nm show ?thesis by simp
qed

theorem deploy_apply_envelope_witness:
  "actions (snd (addonDeployController_sync (helloWorld encodeBraces) ''cluster1''
                   (hubWith installedAddon))) =
     [CreateWork ''cluster1'' (deployWork (helloWorld encodeBraces) ''cluster1'' [[123, 125]])]
   \<and> addonDeployController_sync (helloWorld encodeBraces) ''cluster1''
       (snd (addonDeployController_sync (helloWorld encodeBraces) ''cluster1''
               (hubWith installedAddon))) =
     (None, snd (addonDeployController_sync (helloWorld encodeBraces) ''cluster1''
                   (hubWith installedAddon)))
   \<and> actions (snd (addonDeployController_sync (helloWorld encodeBraces) ''cluster1''
        ((hubWith installedAddon)
           \<lparr>workStore := [(''cluster1'', ''addon-helloworld-deploy'') \<mapsto>
                            deployEnvelope\<lparr>ResourceVersion := 7\<rparr>]\<rparr>))) =
     [UpdateWork ''cluster1''
        ((deployWork (helloWorld encodeBraces) ''cluster1'' [[123, 125]])\<lparr>ResourceVersion := 7\<rparr>)]
   \<and> addonDeployController_sync (helloWorld encodeBraces) ''cluster1''
        ((hubWith installedAddon)
           \<lparr>workStore := [(''cluster1'', ''addon-helloworld-deploy'') \<mapsto>
                            deployEnvelope\<lparr>Manifests := [[123, 125]]\<rparr>]\<rparr>) =
     (None, (hubWith installedAddon)
           \<lparr>workStore := [(''cluster1'', ''addon-helloworld-deploy'') \<mapsto>
                            deployEnvelope\<lparr>Manifests := [[123, 125]]\<rparr>]\<rparr>)"
proof -
  let ?c = "helloWorld encodeBraces"
  let ?mc = "NewManagedCluster ''cluster1''"
  let ?cm = "NewClusterManagementAddOn ''helloworld''"
  have hyps: "lister_get (clusterCache (w\<lparr>workStore := s\<rparr>)) [] ''cluster1'' = Inr ?mc"
       "lister_get (addonCache (w\<lparr>workStore := s\<rparr>)) ''cluster1'' (deploy_addonName ?c) = Inr installedAddon"
       "clusterManagementStore (w\<lparr>workStore := s\<rparr>) (deploy_addonName ?c) = Some ?cm"
       "getAddonConfig ?c (w\<lparr>workStore := s\<rparr>) (CRDName ?cm) (CRName ?cm) ''cluster1'' = Inr None"
    if "w = hubWith installedAddon" for w s
    using that by (simp_all add: example_defs lister_get_def getAddonConfig_def)
  have live: "IsZero (DeletionTimestamp installedAddon)"
    and fin: "addonFinalizer \<in> set (Finalizers installedAddon)"
    and objs: "fst (AgentManifests ?c ?mc None) \<noteq> []"
    and enc: "list_all2 (\<lambda>obj raw. Encode ?c obj = Inr raw) (fst (AgentManifests ?c ?mc None)) [[123, 125]]"
    by (simp_all add: example_defs IsZero_def)
  note inst = deploy_apply_envelope [OF hyps(1) hyps(2) live fin hyps(3) hyps(4) objs enc, OF refl refl refl refl]
  have same: "hubWith installedAddon = (hubWith installedAddon)\<lparr>workStore := Map.empty\<rparr>"
    by (simp add: example_defs)
  show ?thesis
    using inst [of Map.empty]
      inst [of "[(''cluster1'', ''addon-helloworld-deploy'') \<mapsto> deployEnvelope\<lparr>ResourceVersion := 7\<rparr>]"]
      inst [of "[(''cluster1'', ''addon-helloworld-deploy'') \<mapsto> deployEnvelope\<lparr>Manifests := [[123, 125]]\<rparr>]"]
    unfolding same [symmetric]
    by (simp add: example_defs)
qed

text \<open>
  The claim as stated names neither the encoding nor the \<^verbatim>\<open>ClusterManagementAddOn\<close>.
  With the cluster, the installed add-on, a supplier that returns one object and no
  envelope stored, nothing is created when the object does not encode (the reconcile
  returns the encoder's error), and nothing is created when the
  \<^verbatim>\<open>ClusterManagementAddOn\<close> is missing (the reconcile returns not-found).
\<close>

theorem deploy_apply_envelope_counterexample:
  "lister_get (clusterCache (hubWith installedAddon)) [] ''cluster1'' =
     Inr (NewManagedCluster ''cluster1'')
   \<and> lister_get (addonCache (hubWith installedAddon)) ''cluster1'' ''helloworld'' =
     Inr installedAddon
   \<and> IsZero (DeletionTimestamp installedAddon)
   \<and> addonFinalizer \<in> set (Finalizers installedAddon)
   \<and> fst (AgentManifests (helloWorld encodeFails) (NewManagedCluster ''cluster1'') None) =
     [K8sObject ''ConfigMap'' ''default'' ''hello-world'']
   \<and> workStore (hubWith installedAddon) (''cluster1'', ''addon-helloworld-deploy'') = None
   \<and> addonDeployController_sync (helloWorld encodeFails) ''cluster1'' (hubWith installedAddon) =
     (Some (Failure ''json: unsupported value''), hubWith installedAddon)
   \<and> addonDeployController_sync (helloWorld encodeBraces) ''cluster1''
       ((hubWith installedAddon)\<lparr>clusterManagementStore := Map.empty\<rparr>) =
     (Some NotFound, (hubWith installedAddon)\<lparr>clusterManagementStore := Map.empty\<rparr>)"
  by (simp add: addonDeployController_sync_def lister_get_def example_defs IsZero_def
        IsNotFound_def store_get_def getAddonConfig_def buildManifestWorkFromObject_def
        addonFinalizer_def)

section \<open>The CSR approving controller\<close>

lemmas csr_example_defs =
  exampleX509_def helloWorldApprover_def renewalOnlyApprover_def renewalCSR_def
  deniedRenewalCSR_def deniedCSR_def approvedCondition_def NewCSR_def csrCondition_def
  agentSubject_def NewCSRApprovingController_def emptyWorld_def

lemma isCSRApprovedLoop_iff:
  "isCSRApprovedLoop approved cs \<longleftrightarrow>
     (approved \<or> CertificateApproved \<in> CsrType ` set cs) \<and> CertificateDenied \<notin> CsrType ` set cs"
proof (induction cs arbitrary: approved)
  case Nil
  show ?case by simp
next
  case (Cons c cs)
  have neq: "CertificateApproved \<noteq> CertificateDenied"
    by (simp add: CertificateApproved_def CertificateDenied_def)
  show ?case
  proof (cases "CsrType c = CertificateDenied")
    case True
    then show ?thesis by simp
  next
    case False
    show ?thesis
    proof (cases "CsrType c = CertificateApproved")
      case True
      with False Cons.IH [of True] neq show ?thesis by auto
    next
      case notApproved: False
      with False Cons.IH [of approved] show ?thesis by auto
    qed
  qed
qed

lemma isCSRApproved_iff:
  "isCSRApproved csr \<longleftrightarrow>
     CertificateApproved \<in> CsrType ` set (CsrConditions csr)
     \<and> CertificateDenied \<notin> CsrType ` set (CsrConditions csr)"
  by (simp add: isCSRApproved_def isCSRApprovedLoop_iff)

lemma IsCSRInTerminalState_iff:
  "IsCSRInTerminalState csr \<longleftrightarrow>
     CertificateApproved \<in> CsrType ` set (CsrConditions csr)
     \<or> CertificateDenied \<in> CsrType ` set (CsrConditions csr)"
proof -
  have "IsCSRInTerminalStateLoop cs \<longleftrightarrow>
      CertificateApproved \<in> CsrType ` set cs \<or> CertificateDenied \<in> CsrType ` set cs" for cs
    by (induction cs) auto
  then show ?thesis by (simp add: IsCSRInTerminalState_def)
qed

lemma runCheckFuncs_True: "runCheckFuncs True fs csr \<longleftrightarrow> list_all (\<lambda>f. f csr) fs"
  by (induction fs) simp_all

lemma runCheckFuncs_False:
  "runCheckFuncs False fs csr \<longleftrightarrow> fs \<noteq> [] \<and> list_all (\<lambda>f. f csr) fs"
  by (cases fs) (simp_all add: runCheckFuncs_True)

text \<open>
  Claim C1 asks that a reconcile of a request that already carries an Approved or a
  Denied condition writes nothing.  \<^verbatim>\<open>sync\<close> returns early only when
  \<^verbatim>\<open>isCSRApproved\<close> holds, which is false for a denied request: with the approve check
  of \<^verbatim>\<open>examples/helloworld\<close>, the reconcile of a denied request appends an Approved
  condition and calls \<^verbatim>\<open>UpdateApproval\<close>.
\<close>

theorem denied_csr_is_approved:
  "IsCSRInTerminalState deniedCSR
   \<and> fst (csrApprovingController_sync helloWorldApprover (Name deniedCSR)
       (emptyWorld\<lparr>csrStore := [Name deniedCSR \<mapsto> deniedCSR]\<rparr>)) = None
   \<and> actions (snd (csrApprovingController_sync helloWorldApprover (Name deniedCSR)
       (emptyWorld\<lparr>csrStore := [Name deniedCSR \<mapsto> deniedCSR]\<rparr>))) =
     [UpdateApproval (Name deniedCSR)
        (deniedCSR\<lparr>CsrConditions := [csrCondition CertificateDenied, approvedCondition]\<rparr>)]"
  by (simp add: csrApprovingController_sync_def csr_example_defs store_get_def
        isCSRApproved_def IsCSRInTerminalState_def CertificateDenied_def CertificateApproved_def
        isSpokeClusterClientCertRenewal_def approveCSR_def csrUpdateApproval_def
        record_action_def err_of_def Let_def)

text \<open>
  X1.  A request with an Approved and without a Denied condition is left alone: the
  reconcile returns nil and the world is unchanged.
\<close>

theorem approved_csr_untouched:
  assumes "csrStore w n = Some csr"
    and "CertificateApproved \<in> CsrType ` set (CsrConditions csr)"
    and "CertificateDenied \<notin> CsrType ` set (CsrConditions csr)"
  shows "csrApprovingController_sync c n w = (None, w)"
  using assms by (simp add: csrApprovingController_sync_def store_get_def isCSRApproved_iff)

theorem approved_csr_untouched_witness:
  "csrApprovingController_sync helloWorldApprover (Name renewalCSR)
     (emptyWorld\<lparr>csrStore := [Name renewalCSR \<mapsto>
        renewalCSR\<lparr>CsrConditions := [csrCondition CertificateApproved]\<rparr>]\<rparr>) =
   (None, emptyWorld\<lparr>csrStore := [Name renewalCSR \<mapsto>
        renewalCSR\<lparr>CsrConditions := [csrCondition CertificateApproved]\<rparr>]\<rparr>)"
proof -
  let ?csr = "renewalCSR\<lparr>CsrConditions := [csrCondition CertificateApproved]\<rparr>"
  let ?w = "emptyWorld\<lparr>csrStore := [Name renewalCSR \<mapsto> ?csr]\<rparr>"
  have 1: "csrStore ?w (Name renewalCSR) = Some ?csr"
    by simp
  have 2: "CertificateApproved \<in> CsrType ` set (CsrConditions ?csr)"
    and 3: "CertificateDenied \<notin> CsrType ` set (CsrConditions ?csr)"
    by (simp_all add: csrCondition_def CertificateApproved_def CertificateDenied_def)
  show ?thesis
    by (rule approved_csr_untouched [OF 1 2 3])
qed

text \<open>
  Claim C2 has the renewal chain hold only for a request that is not in a terminal
  state.  The chain built by \<^verbatim>\<open>NewCSRApprovingController\<close> runs
  \<^verbatim>\<open>IsCSRInTerminalState\<close> as a check that must succeed: the request below has no
  condition and meets every other condition of the claim, and the chain fails on it (the
  reconcile writes nothing), while the chain holds for the same request once it is
  denied.
\<close>

theorem renewal_chain_needs_terminal_state:
  "\<not> IsCSRInTerminalState renewalCSR
   \<and> Labels renewalCSR spokeClusterNameLabel = Some ''cluster1''
   \<and> SignerName renewalCSR = csr_signer renewalOnlyApprover
   \<and> pemDecode exampleX509 (Request renewalCSR) =
       Some \<lparr>BlockType = ''CERTIFICATE REQUEST'', BlockBytes = [45]\<rparr>
   \<and> ParseCertificateRequest exampleX509 [45] =
       Inr \<lparr>CommonName = agentSubject, Organization = [AgentGroup ''cluster1'' ''helloworld'']\<rparr>
   \<and> prefix (AgentGroup ''cluster1'' ''helloworld'') agentSubject
   \<and> Username renewalCSR = agentSubject
   \<and> runCheckFuncs False (renewCheckFuncs renewalOnlyApprover) renewalCSR = False
   \<and> csrApprovingController_sync renewalOnlyApprover (Name renewalCSR)
        (emptyWorld\<lparr>csrStore := [Name renewalCSR \<mapsto> renewalCSR]\<rparr>) =
      (None, emptyWorld\<lparr>csrStore := [Name renewalCSR \<mapsto> renewalCSR]\<rparr>)
   \<and> runCheckFuncs False (renewCheckFuncs renewalOnlyApprover) deniedRenewalCSR = True"
  by (simp add: csrApprovingController_sync_def csr_example_defs store_get_def
        isCSRApproved_def IsCSRInTerminalState_def CertificateDenied_def CertificateApproved_def
        isSpokeClusterClientCertRenewal_def spokeClusterNameLabel_def AgentGroup_def)

lemma renewal_chain_iff:
  "runCheckFuncs False (renewCheckFuncs (NewCSRApprovingController lib signer addonName fs)) csr
     \<longleftrightarrow> IsCSRInTerminalState csr \<and> isSpokeClusterClientCertRenewal lib signer addonName csr"
  by (simp add: NewCSRApprovingController_def)

text \<open>
  X2.  \<^verbatim>\<open>isSpokeClusterClientCertRenewal\<close> holds exactly when the request carries the
  cluster label, its signer name is empty or the configured signer, its request decodes
  to a block of type \<^verbatim>\<open>CERTIFICATE REQUEST\<close> that parses, the subject has the agent
  group of the cluster and the add-on as its only organization, the common name starts
  with that organization, and the user name is the common name.
\<close>

theorem isSpokeClusterClientCertRenewal_iff:
  "isSpokeClusterClientCertRenewal lib signer addonName csr \<longleftrightarrow>
     (\<exists>cluster block x509cr.
        Labels csr spokeClusterNameLabel = Some cluster
        \<and> (SignerName csr = [] \<or> SignerName csr = signer)
        \<and> pemDecode lib (Request csr) = Some block
        \<and> BlockType block = ''CERTIFICATE REQUEST''
        \<and> ParseCertificateRequest lib (BlockBytes block) = Inr x509cr
        \<and> Organization x509cr = [AgentGroup cluster addonName]
        \<and> prefix (AgentGroup cluster addonName) (CommonName x509cr)
        \<and> Username csr = CommonName x509cr)"
proof (cases "Labels csr spokeClusterNameLabel")
  case None
  then show ?thesis by (simp add: isSpokeClusterClientCertRenewal_def)
next
  case (Some cluster)
  note lbl = Some
  show ?thesis
  proof (cases "pemDecode lib (Request csr)")
    case None
    with lbl show ?thesis by (simp add: isSpokeClusterClientCertRenewal_def)
  next
    case (Some block)
    note blk = Some
    show ?thesis
    proof (cases "ParseCertificateRequest lib (BlockBytes block)")
      case (Inl e)
      with lbl blk show ?thesis by (simp add: isSpokeClusterClientCertRenewal_def)
    next
      case (Inr x509cr)
      show ?thesis
      proof (cases "Organization x509cr")
        case Nil
        with lbl blk Inr show ?thesis by (simp add: isSpokeClusterClientCertRenewal_def)
      next
        case (Cons organization rest)
        with lbl blk Inr show ?thesis
          by (cases rest) (auto simp: isSpokeClusterClientCertRenewal_def)
      qed
    qed
  qed
qed

section \<open>The certificate manager controller\<close>

lemma lookup_eq_false: "lookup m k = ''false'' \<longleftrightarrow> m k = Some ''false''"
  by (simp add: lookup_def split: option.splits)

text \<open>
  Claim C7, as amended.  For an add-on the lister returns whose annotations are empty or
  set \<^verbatim>\<open>enable_registration\<close> to \<^verbatim>\<open>false\<close>, the reconcile of the certificate manager
  controller returns nil and leaves the controller and the world as they are.
\<close>

theorem registration_opt_out_no_writes:
  assumes "lister_get (addonCache w) (certmgr_clusterName c) n = Inr a"
    and "Annotations a = Map.empty \<or> Annotations a ''enable_registration'' = Some ''false''"
  shows "certificateManagerController_sync c n w = Some (None, c, w)"
  using assms by (auto simp: certificateManagerController_sync_def lookup_eq_false)

theorem registration_opt_out_no_writes_witness:
  "certificateManagerController_sync spokeAgent ''helloworld''
     (hubWith ((NewAddon ''cluster1'' ''helloworld'')
                 \<lparr>Annotations := [''enable_registration'' \<mapsto> ''false'']\<rparr>)) =
   Some (None, spokeAgent,
         hubWith ((NewAddon ''cluster1'' ''helloworld'')
                    \<lparr>Annotations := [''enable_registration'' \<mapsto> ''false'']\<rparr>))
   \<and> certificateManagerController_sync spokeAgent ''helloworld''
       (hubWith (NewAddon ''cluster1'' ''helloworld'')) =
     Some (None, spokeAgent, hubWith (NewAddon ''cluster1'' ''helloworld''))"
proof -
  let ?a = "(NewAddon ''cluster1'' ''helloworld'')
              \<lparr>Annotations := [''enable_registration'' \<mapsto> ''false'']\<rparr>"
  let ?b = "NewAddon ''cluster1'' ''helloworld''"
  have a: "lister_get (addonCache (hubWith ?a)) (certmgr_clusterName spokeAgent) ''helloworld'' = Inr ?a"
    and b: "lister_get (addonCache (hubWith ?b)) (certmgr_clusterName spokeAgent) ''helloworld'' = Inr ?b"
    by (simp_all add: hubWith_def emptyWorld_def lister_get_def NewAddon_def spokeAgent_def)
  have a2: "Annotations ?a = Map.empty \<or> Annotations ?a ''enable_registration'' = Some ''false''"
    and b2: "Annotations ?b = Map.empty \<or> Annotations ?b ''enable_registration'' = Some ''false''"
    by (simp_all add: NewAddon_def)
  show ?thesis
    using registration_opt_out_no_writes [OF a a2] registration_opt_out_no_writes [OF b b2]
    by simp
qed

text \<open>
  The claim as stated covers every add-on whose annotation is not \<^verbatim>\<open>true\<close>.  The add-on
  below has an annotation of another key and none for \<^verbatim>\<open>enable_registration\<close>; the
  reconcile adds the registration finalizer with an update.
\<close>

theorem registration_opt_out_counterexample:
  "Annotations unannotatedAddon ''enable_registration'' \<noteq> Some ''true''
   \<and> certificateManagerController_sync spokeAgent ''helloworld'' (hubWith unannotatedAddon) =
     Some (None, spokeAgent,
           snd (addonUpdate ''cluster1''
                  (unannotatedAddon\<lparr>Finalizers := [spokeRegistrationFinalizer]\<rparr>)
                  (hubWith unannotatedAddon)))
   \<and> actions (snd (addonUpdate ''cluster1''
                  (unannotatedAddon\<lparr>Finalizers := [spokeRegistrationFinalizer]\<rparr>)
                  (hubWith unannotatedAddon))) =
     [UpdateAddon ''cluster1'' (unannotatedAddon\<lparr>Finalizers := [spokeRegistrationFinalizer]\<rparr>)]"
  by (simp add: certificateManagerController_sync_def spokeAgent_def lister_get_def
        hubWith_def emptyWorld_def unannotatedAddon_def NewAddon_def lookup_def IsZero_def
        addonUpdate_def record_action_def err_of_def Let_def)

section \<open>The add-on configuration controller\<close>

lemma MergeMap_distinct:
  "distinct (map fst required) \<Longrightarrow>
     MergeMap modified existing required =
       (modified \<or> (\<exists>(k, v) \<in> set required. existing k \<noteq> Some v),
        existing ++ map_of required)"
proof (induction required arbitrary: modified existing)
  case Nil
  show ?case by simp
next
  case (Cons kv required)
  obtain k v where kv: "kv = (k, v)" by (cases kv)
  from Cons.prems kv have fresh: "k \<notin> fst ` set required" and dist: "distinct (map fst required)"
    by auto
  from fresh have nodom: "map_of required k = None"
    by (simp add: map_of_eq_None_iff)
  show ?case
  proof (cases "existing k = Some v")
    case True
    have eq: "existing ++ map_of (kv # required) = existing ++ map_of required"
      using True nodom kv by (auto simp: map_add_def fun_eq_iff split: option.splits)
    have flag: "(\<exists>(k', v') \<in> set (kv # required). existing k' \<noteq> Some v') =
        (\<exists>(k', v') \<in> set required. existing k' \<noteq> Some v')"
      using True kv by auto
    have "MergeMap modified existing (kv # required) = MergeMap modified existing required"
      using True kv by simp
    also have "\<dots> = (modified \<or> (\<exists>(k', v') \<in> set required. existing k' \<noteq> Some v'),
        existing ++ map_of required)"
      by (rule Cons.IH [OF dist])
    finally have r: "MergeMap modified existing (kv # required) =
        (modified \<or> (\<exists>(k', v') \<in> set required. existing k' \<noteq> Some v'),
         existing ++ map_of required)" .
    show ?thesis unfolding r eq flag ..
  next
    case False
    have eq: "existing(k \<mapsto> v) ++ map_of required = existing ++ map_of (kv # required)"
      using nodom kv by (auto simp: map_add_def fun_eq_iff split: option.splits)
    have flag: "(\<exists>(k', v') \<in> set (kv # required). existing k' \<noteq> Some v') = True"
      using False kv by auto
    have "MergeMap modified existing (kv # required) = MergeMap True (existing(k \<mapsto> v)) required"
      using False kv by simp
    also have "\<dots> = (True \<or> (\<exists>(k', v') \<in> set required. (existing(k \<mapsto> v)) k' \<noteq> Some v'),
        existing(k \<mapsto> v) ++ map_of required)"
      by (rule Cons.IH [OF dist])
    finally have r: "MergeMap modified existing (kv # required) =
        (True, existing(k \<mapsto> v) ++ map_of required)" by simp
    have "MergeMap modified existing (kv # required) =
        (True, existing ++ map_of (kv # required))"
      unfolding eq [symmetric] by (rule r)
    moreover have "(modified \<or> (\<exists>(k', v') \<in> set (kv # required). existing k' \<noteq> Some v')) = True"
      unfolding flag by (simp only: simp_thms)
    ultimately show ?thesis by (simp only:)
  qed
qed

lemma annotationData_distinct: "distinct (map fst (annotationData c kubeConfigData))"
  by (simp add: annotationData_def)

text \<open>
  Claim C8 has the annotation \<^verbatim>\<open>signer\<close> come from the registration
  configuration.  \<^verbatim>\<open>NewAddonConfigController\<close> never assigns the field the reconcile
  reads, so the controller it builds has an empty signer whatever the registration
  configuration holds, and the reconcile of an add-on without annotations writes
  \<^verbatim>\<open>signer\<close> as the empty string.
\<close>

theorem config_signer_left_empty:
  "config_signer (NewAddonConfigController addonName enableReg installNamespace agentAddon) = []
   \<and> actions (snd (addonConfigController_sync helloWorldConfig ''cluster1''
                     (hubWith (NewAddon ''cluster1'' ''helloworld'')))) =
     [UpdateAddon ''cluster1''
        ((NewAddon ''cluster1'' ''helloworld'')
           \<lparr>Annotations := [''signer'' \<mapsto> [],
                             ''installNamespace'' \<mapsto> ''default'',
                             ''enable_registration'' \<mapsto> ''true'']\<rparr>)]"
  by (simp add: NewAddonConfigController_def helloWorldConfig_def addonConfigController_sync_def
        hubWith_def emptyWorld_def lister_get_def NewAddon_def NewManagedCluster_def
        annotationData_def addonUpdate_def record_action_def Let_def)

text \<open>
  X3.  In a reconcile where the lister returns the add-on and the cluster, the bootstrap
  kubeconfig supplier returns without error and registration is enabled: the entries
  merged are \<^verbatim>\<open>signer\<close> (the signer field of the controller), \<^verbatim>\<open>installNamespace\<close>
  and \<^verbatim>\<open>enable_registration = true\<close>, and \<^verbatim>\<open>bootstrapSecret\<close> exactly when the
  kubeconfig is not empty; one update with the merged annotations is issued exactly when
  some entry is missing from the add-on's annotations or bound to another value there.
\<close>

theorem config_annotations_merged:
  assumes "lister_get (addonCache w) ns (config_addonName c) = Inr a"
    and "lister_get (clusterCache w) [] ns = Inr cluster"
    and "AgentBootstrapKubeConfig c cluster = Inr kubeConfigData"
    and "enableRegistration c"
  shows "annotationData c kubeConfigData =
           [(''signer'', config_signer c),
            (''installNamespace'', addonInstallNamespace c),
            (''enable_registration'', ''true'')]
           @ (if kubeConfigData \<noteq> []
              then [(''bootstrapSecret'', config_addonName c @ ''-bootstrap-kubeconfig'')]
              else [])
       \<and> actions (snd (addonConfigController_sync c ns w)) =
           actions w @
           (if \<exists>(k, v) \<in> set (annotationData c kubeConfigData). Annotations a k \<noteq> Some v
            then [UpdateAddon ns
                    (a\<lparr>Annotations := Annotations a ++ map_of (annotationData c kubeConfigData)\<rparr>)]
            else [])"
proof -
  have merge: "MergeMap False (Annotations a) (annotationData c kubeConfigData) =
      ((\<exists>(k, v) \<in> set (annotationData c kubeConfigData). Annotations a k \<noteq> Some v),
       Annotations a ++ map_of (annotationData c kubeConfigData))"
    using MergeMap_distinct [OF annotationData_distinct, of False "Annotations a" c kubeConfigData]
    by simp
  have data: "annotationData c kubeConfigData =
           [(''signer'', config_signer c),
            (''installNamespace'', addonInstallNamespace c),
            (''enable_registration'', ''true'')]
           @ (if kubeConfigData \<noteq> []
              then [(''bootstrapSecret'', config_addonName c @ ''-bootstrap-kubeconfig'')]
              else [])"
    using assms(4) by (simp add: annotationData_def)
  have sync: "addonConfigController_sync c ns w =
      (if \<exists>(k, v) \<in> set (annotationData c kubeConfigData). Annotations a k \<noteq> Some v
       then (case addonUpdate ns
                    (a\<lparr>Annotations := Annotations a ++ map_of (annotationData c kubeConfigData)\<rparr>) w of
               (r, w') \<Rightarrow> (err_of r, w'))
       else (None, w))"
    using assms(1-3) by (simp add: addonConfigController_sync_def merge)
  have "actions (snd (addonConfigController_sync c ns w)) =
           actions w @
           (if \<exists>(k, v) \<in> set (annotationData c kubeConfigData). Annotations a k \<noteq> Some v
            then [UpdateAddon ns
                    (a\<lparr>Annotations := Annotations a ++ map_of (annotationData c kubeConfigData)\<rparr>)]
            else [])"
    unfolding sync
    by (simp split: prod.splits) (metis actions_addonUpdate snd_conv)
  with data show ?thesis by blast
qed

theorem config_annotations_merged_witness:
  "actions (snd (addonConfigController_sync
       (helloWorldConfig\<lparr>config_signer := ''example.com/signer'',
                          AgentBootstrapKubeConfig := (\<lambda>cluster. Inr [107])\<rparr>)
       ''cluster1''
       (hubWith ((NewAddon ''cluster1'' ''helloworld'')
                   \<lparr>Annotations := [''enable_registration'' \<mapsto> ''false'']\<rparr>)))) =
     [UpdateAddon ''cluster1''
        ((NewAddon ''cluster1'' ''helloworld'')
           \<lparr>Annotations := [''enable_registration'' \<mapsto> ''false'']
                ++ map_of [(''signer'', ''example.com/signer''),
                           (''installNamespace'', ''default''),
                           (''enable_registration'', ''true''),
                           (''bootstrapSecret'', ''helloworld-bootstrap-kubeconfig'')]\<rparr>)]"
proof -
  let ?c = "helloWorldConfig\<lparr>config_signer := ''example.com/signer'',
                          AgentBootstrapKubeConfig := (\<lambda>cluster. Inr [107])\<rparr>"
  let ?a = "(NewAddon ''cluster1'' ''helloworld'')
                   \<lparr>Annotations := [''enable_registration'' \<mapsto> ''false'']\<rparr>"
  have 1: "lister_get (addonCache (hubWith ?a)) ''cluster1'' (config_addonName ?c) = Inr ?a"
    and 2: "lister_get (clusterCache (hubWith ?a)) [] ''cluster1'' = Inr (NewManagedCluster ''cluster1'')"
    and 3: "AgentBootstrapKubeConfig ?c (NewManagedCluster ''cluster1'') = Inr [107]"
    and 4: "enableRegistration ?c"
    by (simp_all add: hubWith_def emptyWorld_def lister_get_def NewAddon_def
          NewManagedCluster_def helloWorldConfig_def NewAddonConfigController_def)
  show ?thesis
    using config_annotations_merged [OF 1 2 3 4]
    by (simp add: helloWorldConfig_def NewAddonConfigController_def)
       (simp add: hubWith_def emptyWorld_def NewAddon_def)
qed

section \<open>The status update helper\<close>

lemma updateAttempt_equal:
  assumes "clientGet client ns n w = (Inr a, w1)"
    and "applyUpdateFuncs fns (AddonStatus a) = Inr newStatus"
    and "newStatus = AddonStatus a"
  shows "updateAttempt client ns n fns vars w = (((Some newStatus, snd vars), None), w1)"
  using assms by (simp add: updateAttempt_def)

lemma updateAttempt_differ:
  assumes "clientGet client ns n w = (Inr a, w1)"
    and "applyUpdateFuncs fns (AddonStatus a) = Inr newStatus"
    and "newStatus \<noteq> AddonStatus a"
    and "clientUpdateStatus client ns (a\<lparr>AddonStatus := newStatus\<rparr>) w1 = (r, w2)"
  shows "updateAttempt client ns n fns vars w =
     (case r of Inl e \<Rightarrow> ((vars, Some e), w2)
              | Inr stored \<Rightarrow> (((Some (AddonStatus stored), True), None), w2))"
  using assms by (auto simp: updateAttempt_def split: sum.splits)

lemma RetryOnConflict_default:
  "RetryOnConflict DefaultBackoffSteps lastErr fn vars w =
     (case fn vars w of
        ((vars', None), w') \<Rightarrow> ((vars', None), w')
      | ((vars', Some e), w') \<Rightarrow>
          if IsConflict e then RetryOnConflict 3 (Some e) fn vars' w'
          else ((vars', Some e), w'))"
proof -
  have four: "DefaultBackoffSteps = Suc 3"
    by (simp add: DefaultBackoffSteps_def)
  show ?thesis
    by (simp only: four RetryOnConflict.simps)
qed

lemma UpdateAddonStatus_outcomes:
  assumes get: "clientGet client ns n w = (Inr a, w1)"
    and fns: "applyUpdateFuncs fns (AddonStatus a) = Inr newStatus"
  shows "(newStatus = AddonStatus a \<longrightarrow>
            UpdateAddonStatus client ns n fns w = ((Some newStatus, False, None), w1))
       \<and> (newStatus \<noteq> AddonStatus a \<longrightarrow>
            (\<forall>stored w2.
               clientUpdateStatus client ns (a\<lparr>AddonStatus := newStatus\<rparr>) w1 = (Inr stored, w2) \<longrightarrow>
               UpdateAddonStatus client ns n fns w = ((Some (AddonStatus stored), True, None), w2))
          \<and> (\<forall>e w2.
               clientUpdateStatus client ns (a\<lparr>AddonStatus := newStatus\<rparr>) w1 = (Inl e, w2) \<longrightarrow>
               (IsConflict e \<longrightarrow>
                  UpdateAddonStatus client ns n fns w =
                    (case RetryOnConflict 3 (Some e) (updateAttempt client ns n fns) (None, False) w2 of
                       (((status, updated), err), w') \<Rightarrow> ((status, updated, err), w')))
             \<and> (\<not> IsConflict e \<longrightarrow>
                  UpdateAddonStatus client ns n fns w = ((None, False, Some e), w2))))"
proof -
  note four = RetryOnConflict_default
  have equal: "UpdateAddonStatus client ns n fns w = ((Some newStatus, False, None), w1)"
    if "newStatus = AddonStatus a"
    using updateAttempt_equal [OF get fns that, of "(None, False)"]
    by (simp add: UpdateAddonStatus_def four)
  have stored: "UpdateAddonStatus client ns n fns w = ((Some (AddonStatus stored), True, None), w2)"
    if "newStatus \<noteq> AddonStatus a"
      "clientUpdateStatus client ns (a\<lparr>AddonStatus := newStatus\<rparr>) w1 = (Inr stored, w2)"
    for stored w2
    using updateAttempt_differ [OF get fns that, of "(None, False)"]
    by (simp add: UpdateAddonStatus_def four)
  have conflict: "UpdateAddonStatus client ns n fns w =
        (case RetryOnConflict 3 (Some e) (updateAttempt client ns n fns) (None, False) w2 of
           (((status, updated), err), w') \<Rightarrow> ((status, updated, err), w'))"
    if "newStatus \<noteq> AddonStatus a"
      "clientUpdateStatus client ns (a\<lparr>AddonStatus := newStatus\<rparr>) w1 = (Inl e, w2)"
      "IsConflict e"
    for e w2
    using updateAttempt_differ [OF get fns that(1,2), of "(None, False)"] that(3)
    by (simp add: UpdateAddonStatus_def four)
  have failed: "UpdateAddonStatus client ns n fns w = ((None, False, Some e), w2)"
    if "newStatus \<noteq> AddonStatus a"
      "clientUpdateStatus client ns (a\<lparr>AddonStatus := newStatus\<rparr>) w1 = (Inl e, w2)"
      "\<not> IsConflict e"
    for e w2
    using updateAttempt_differ [OF get fns that(1,2), of "(None, False)"] that(3)
    by (simp add: UpdateAddonStatus_def four)
  from equal stored conflict failed show ?thesis by blast
qed

lemma foldl_Inl:
  "foldl (\<lambda>result update. case result of Inl e \<Rightarrow> Inl e | Inr newStatus \<Rightarrow> update newStatus)
     (Inl e) fns = Inl e"
  by (induction fns) simp_all

lemma applyUpdateFuncs_in_order: "applyUpdateFuncs fns st = specAppliedInOrder fns st"
proof (induction fns arbitrary: st)
  case Nil
  show ?case by (simp add: specAppliedInOrder_def)
next
  case (Cons f fns)
  show ?case
  proof (cases "f st")
    case (Inl e)
    then show ?thesis by (simp add: specAppliedInOrder_def foldl_Inl)
  next
    case (Inr st')
    with Cons [of st'] show ?thesis by (simp add: specAppliedInOrder_def)
  qed
qed

lemma conflicting_attempt:
  assumes "specAttemptConflicts client ns n fns v v'"
  shows "\<exists>e. IsConflict e \<and> updateAttempt client ns n fns vars v = ((vars, Some e), v')"
proof -
  obtain r v1 where get: "clientGet client ns n v = (r, v1)"
    by (cases "clientGet client ns n v")
  show ?thesis
  proof (cases r)
    case (Inl e)
    with get assms show ?thesis
      by (simp add: specAttemptConflicts_def updateAttempt_def)
  next
    case a: (Inr a)
    show ?thesis
    proof (cases "specAppliedInOrder fns (AddonStatus a)")
      case (Inl e)
      with get a assms show ?thesis
        by (simp add: specAttemptConflicts_def updateAttempt_def applyUpdateFuncs_in_order)
    next
      case new: (Inr newStatus)
      obtain r2 v2 where upd:
        "clientUpdateStatus client ns (a\<lparr>AddonStatus := newStatus\<rparr>) v1 = (r2, v2)"
        by (cases "clientUpdateStatus client ns (a\<lparr>AddonStatus := newStatus\<rparr>) v1")
      from get a new upd assms have differ: "newStatus \<noteq> AddonStatus a"
        by (simp add: specAttemptConflicts_def)
      show ?thesis
      proof (cases r2)
        case (Inl e)
        with get a new upd assms differ differ [symmetric] show ?thesis
          by (simp add: specAttemptConflicts_def updateAttempt_def applyUpdateFuncs_in_order)
      next
        case (Inr stored)
        with get a new upd assms show ?thesis
          by (simp add: specAttemptConflicts_def)
      qed
    qed
  qed
qed



lemma conflicting_attempt_state:
  assumes "specAttemptConflicts client ns n fns v v'"
  shows "v' = snd (updateAttempt client ns n fns (None, False) v)"
proof -
  from conflicting_attempt [OF assms, of "(None, False)"]
  obtain e where "updateAttempt client ns n fns (None, False) v = (((None, False), Some e), v')"
    by blast
  then show ?thesis by simp
qed

lemma deciding_attempt:
  fixes w :: 'w
  shows "\<exists>k s. k < DefaultBackoffSteps \<and> s 0 = w
           \<and> (\<forall>i<k. specAttemptConflicts client ns n fns (s i) (s (Suc i)))
           \<and> (Suc k = DefaultBackoffSteps
                \<or> (\<forall>v'. \<not> specAttemptConflicts client ns n fns (s k) v'))"
proof -
  define next_state where
    "next_state v = snd (updateAttempt client ns n fns (None, False) v)" for v :: 'w
  define s where "s i = (next_state ^^ i) w" for i
  define lost where "lost i \<longleftrightarrow> (\<exists>v'. specAttemptConflicts client ns n fns (s i) v')" for i
  have step: "specAttemptConflicts client ns n fns (s i) (s (Suc i))" if "lost i" for i
  proof -
    from that obtain v' where c: "specAttemptConflicts client ns n fns (s i) v'"
      unfolding lost_def by blast
    from conflicting_attempt_state [OF c] have "v' = s (Suc i)"
      by (simp add: s_def next_state_def)
    with c show ?thesis by simp
  qed
  have start: "s 0 = w"
    by (simp add: s_def)
  show ?thesis
  proof (cases "\<forall>i<3. lost i")
    case True
    have "3 < DefaultBackoffSteps" "Suc 3 = DefaultBackoffSteps"
      by (simp_all add: DefaultBackoffSteps_def)
    moreover from True step
    have "\<forall>i<3. specAttemptConflicts client ns n fns (s i) (s (Suc i))"
      by blast
    ultimately show ?thesis
      using start by blast
  next
    case False
    define k where "k = (LEAST i. \<not> lost i)"
    from False obtain j where j: "j < 3" "\<not> lost j"
      by blast
    from j(2) have notlost: "\<not> lost k"
      unfolding k_def by (rule LeastI)
    from j(2) have "k \<le> j"
      unfolding k_def by (rule Least_le)
    with j(1) have small: "k < DefaultBackoffSteps"
      by (simp add: DefaultBackoffSteps_def)
    have before: "lost i" if "i < k" for i
      using that not_less_Least unfolding k_def by blast
    from notlost have last: "\<forall>v'. \<not> specAttemptConflicts client ns n fns (s k) v'"
      unfolding lost_def by blast
    from before step have "\<forall>i<k. specAttemptConflicts client ns n fns (s i) (s (Suc i))"
      by blast
    with small start last show ?thesis
      by blast
  qed
qed




section \<open>The lease controller of the hub\<close>

lemma FindStatusCondition_Set:
  "\<exists>c. FindStatusCondition (SetStatusCondition now cs new) (Type new) = Some c
       \<and> Status c = Status new \<and> Reason c = Reason new \<and> Message c = Message new"
  by (induction cs) auto

lemma UpdateAddonStatus_world:
  assumes "addonStore w (ns, n) = Some a" and "Name a = n"
  shows "UpdateAddonStatus worldAddonClient ns n [UpdateAddonConditionFn now cond] w =
     (let newStatus = (AddonStatus a)
            \<lparr>Conditions := SetStatusCondition now (Conditions (AddonStatus a)) cond\<rparr>
      in if AddonStatus a = newStatus then ((Some newStatus, False, None), w)
         else ((Some newStatus, True, None),
               w\<lparr>actions := actions w @ [UpdateAddonStatusAction ns (a\<lparr>AddonStatus := newStatus\<rparr>)],
                 addonStore := (addonStore w)((ns, n) \<mapsto>
                    a\<lparr>ResourceVersion := Suc (ResourceVersion a), AddonStatus := newStatus\<rparr>)\<rparr>))"
proof -
  let ?new = "(AddonStatus a)\<lparr>Conditions := SetStatusCondition now (Conditions (AddonStatus a)) cond\<rparr>"
  have get: "clientGet worldAddonClient ns n w = (Inr a, w)"
    using assms by (simp add: worldAddonClient_def store_get_def)
  have fns: "applyUpdateFuncs [UpdateAddonConditionFn now cond] (AddonStatus a) = Inr ?new"
    by (simp add: UpdateAddonConditionFn_def)
  have upd: "clientUpdateStatus worldAddonClient ns (a\<lparr>AddonStatus := ?new\<rparr>) w =
      (Inr (a\<lparr>ResourceVersion := Suc (ResourceVersion a), AddonStatus := ?new\<rparr>),
       w\<lparr>actions := actions w @ [UpdateAddonStatusAction ns (a\<lparr>AddonStatus := ?new\<rparr>)],
         addonStore := (addonStore w)((ns, n) \<mapsto>
            a\<lparr>ResourceVersion := Suc (ResourceVersion a), AddonStatus := ?new\<rparr>)\<rparr>)"
    using assms
    by (simp add: worldAddonClient_def addonUpdateStatus_def record_action_def Let_def)
  show ?thesis
  proof (cases "AddonStatus a = ?new")
    case True
    with UpdateAddonStatus_outcomes [OF get fns] show ?thesis
      by (simp add: Let_def)
  next
    case False
    then have "?new \<noteq> AddonStatus a" by (rule not_sym)
    with UpdateAddonStatus_outcomes [OF get fns] upd False show ?thesis
      by (simp add: Let_def)
  qed
qed

lemma UpdateAddonStatus_world_step:
  assumes "addonStored w ns n"
  shows "snd (snd (fst (UpdateAddonStatus worldAddonClient ns n [UpdateAddonConditionFn now cond] w))) = None"
    and "addonHasCondition (snd (UpdateAddonStatus worldAddonClient ns n [UpdateAddonConditionFn now cond] w)) ns n cond"
    and "k \<noteq> n \<Longrightarrow>
             addonStore (snd (UpdateAddonStatus worldAddonClient ns n [UpdateAddonConditionFn now cond] w)) (ns, k) =
             addonStore w (ns, k)"
    and "addonCache (snd (UpdateAddonStatus worldAddonClient ns n [UpdateAddonConditionFn now cond] w)) = addonCache w"
    and "leaseCache (snd (UpdateAddonStatus worldAddonClient ns n [UpdateAddonConditionFn now cond] w)) = leaseCache w"
proof -
  from assms obtain a where a: "addonStore w (ns, n) = Some a" "Name a = n"
    by (auto simp: addonStored_def split: option.splits)
  obtain c where c: "FindStatusCondition (SetStatusCondition now (Conditions (AddonStatus a)) cond) (Type cond) = Some c"
      "Status c = Status cond" "Reason c = Reason cond"
    using FindStatusCondition_Set [of now "Conditions (AddonStatus a)" cond] by blast
  let ?new = "(AddonStatus a)\<lparr>Conditions := SetStatusCondition now (Conditions (AddonStatus a)) cond\<rparr>"
  let ?r = "UpdateAddonStatus worldAddonClient ns n [UpdateAddonConditionFn now cond] w"
  have r: "?r = (if AddonStatus a = ?new then ((Some ?new, False, None), w)
         else ((Some ?new, True, None),
               w\<lparr>actions := actions w @ [UpdateAddonStatusAction ns (a\<lparr>AddonStatus := ?new\<rparr>)],
                 addonStore := (addonStore w)((ns, n) \<mapsto>
                    a\<lparr>ResourceVersion := Suc (ResourceVersion a), AddonStatus := ?new\<rparr>)\<rparr>))"
    using UpdateAddonStatus_world [OF a, of now cond] by (simp only: Let_def)
  show "snd (snd (fst ?r)) = None"
    unfolding r by simp
  show "addonCache (snd ?r) = addonCache w"
    unfolding r by simp
  show "leaseCache (snd ?r) = leaseCache w"
    unfolding r by simp
  show "addonStore (snd ?r) (ns, k) = addonStore w (ns, k)" if "k \<noteq> n"
    unfolding r using that by simp
  show "addonHasCondition (snd ?r) ns n cond"
  proof (cases "AddonStatus a = ?new")
    case True
    then have "Conditions (AddonStatus a) = Conditions ?new" by simp
    then have same: "SetStatusCondition now (Conditions (AddonStatus a)) cond = Conditions (AddonStatus a)"
      by simp
    from True have "snd ?r = w" unfolding r by simp
    with a c same show ?thesis
      by (simp add: addonHasCondition_def)
  next
    case False
    then have "addonStore (snd ?r) (ns, n) =
        Some (a\<lparr>ResourceVersion := Suc (ResourceVersion a), AddonStatus := ?new\<rparr>)"
      unfolding r by simp
    with a c show ?thesis
      by (simp add: addonHasCondition_def)
  qed
qed

lemma addonHasCondition_cong:
  "addonStore w' (ns, n) = addonStore w (ns, n) \<Longrightarrow>
     addonHasCondition w' ns n cond = addonHasCondition w ns n cond"
  by (simp add: addonHasCondition_def)

lemma addonStored_cong:
  "addonStore w' (ns, n) = addonStore w (ns, n) \<Longrightarrow> addonStored w' ns n = addonStored w ns n"
  by (simp add: addonStored_def)

lemma addonHasCondition_stored: "addonHasCondition w ns n cond \<Longrightarrow> addonStored w ns n"
  by (auto simp: addonHasCondition_def addonStored_def split: option.splits)

lemma leaseController_addons_step:
  assumes "addonStored w ns (Name x)"
  shows "leaseController_addons now ns (x # addons) w =
           leaseController_addons now ns addons
             (snd (UpdateAddonStatus worldAddonClient ns (Name x)
                     [UpdateAddonConditionFn now AddonManagerUpdateStopped] w))"
proof -
  obtain st upd err w' where r: "UpdateAddonStatus worldAddonClient ns (Name x)
      [UpdateAddonConditionFn now AddonManagerUpdateStopped] w = ((st, upd, err), w')"
    by (metis prod.exhaust)
  with UpdateAddonStatus_world_step(1) [OF assms, of now AddonManagerUpdateStopped]
  have "err = None" by simp
  with r show ?thesis by simp
qed

lemma step_keeps_stored:
  assumes "addonStored w ns n" and "addonStored w ns k"
  shows "addonStored (snd (UpdateAddonStatus worldAddonClient ns n [UpdateAddonConditionFn now cond] w)) ns k"
proof (cases "k = n")
  case True
  show ?thesis unfolding True
    by (rule addonHasCondition_stored [OF UpdateAddonStatus_world_step(2) [OF assms(1)]])
next
  case False
  with UpdateAddonStatus_world_step(3) [OF assms(1), of k now cond]
  have "addonStore (snd (UpdateAddonStatus worldAddonClient ns n [UpdateAddonConditionFn now cond] w)) (ns, k)
      = addonStore w (ns, k)"
    by simp
  from addonStored_cong [OF this] assms(2) show ?thesis by simp
qed

lemma step_keeps_condition:
  assumes "addonStored w ns n" and "addonHasCondition w ns k cond"
  shows "addonHasCondition (snd (UpdateAddonStatus worldAddonClient ns n [UpdateAddonConditionFn now cond] w)) ns k cond"
proof (cases "k = n")
  case True
  show ?thesis unfolding True
    by (rule UpdateAddonStatus_world_step(2) [OF assms(1)])
next
  case False
  with UpdateAddonStatus_world_step(3) [OF assms(1), of k now cond]
  have "addonStore (snd (UpdateAddonStatus worldAddonClient ns n [UpdateAddonConditionFn now cond] w)) (ns, k)
      = addonStore w (ns, k)"
    by simp
  from addonHasCondition_cong [OF this] assms(2) show ?thesis by simp
qed

lemma step_sets_condition:
  assumes "addonStored w ns n"
  shows "addonHasCondition (snd (UpdateAddonStatus worldAddonClient ns n [UpdateAddonConditionFn now cond] w)) ns n cond"
  by (rule UpdateAddonStatus_world_step(2) [OF assms])

lemma leaseController_addons_all:
  assumes "\<forall>x \<in> set addons. addonStored w ns (Name x)"
  shows "fst (leaseController_addons now ns addons w) = None
       \<and> (\<forall>x \<in> set addons.
             addonHasCondition (snd (leaseController_addons now ns addons w)) ns (Name x)
               AddonManagerUpdateStopped)
       \<and> (\<forall>k. addonHasCondition w ns k AddonManagerUpdateStopped \<longrightarrow>
             addonHasCondition (snd (leaseController_addons now ns addons w)) ns k
               AddonManagerUpdateStopped)"
  using assms
proof (induction addons arbitrary: w)
  case Nil
  show ?case by simp
next
  case (Cons x addons)
  define w' where "w' = snd (UpdateAddonStatus worldAddonClient ns (Name x)
              [UpdateAddonConditionFn now AddonManagerUpdateStopped] w)"
  from Cons.prems have here: "addonStored w ns (Name x)" by simp
  have unfold: "leaseController_addons now ns (x # addons) w = leaseController_addons now ns addons w'"
    unfolding w'_def by (rule leaseController_addons_step [OF here])
  have got: "addonHasCondition w' ns (Name x) AddonManagerUpdateStopped"
    unfolding w'_def by (rule step_sets_condition [OF here])
  have keep: "addonHasCondition w' ns k AddonManagerUpdateStopped"
    if "addonHasCondition w ns k AddonManagerUpdateStopped" for k
    unfolding w'_def by (rule step_keeps_condition [OF here that])
  have "\<forall>y \<in> set addons. addonStored w' ns (Name y)"
  proof
    fix y assume "y \<in> set addons"
    with Cons.prems have "addonStored w ns (Name y)" by simp
    then show "addonStored w' ns (Name y)"
      unfolding w'_def by (rule step_keeps_stored [OF here])
  qed
  note IH = Cons.IH [OF this]
  from IH have e: "fst (leaseController_addons now ns addons w') = None"
    and all: "\<And>y. y \<in> set addons \<Longrightarrow>
          addonHasCondition (snd (leaseController_addons now ns addons w')) ns (Name y)
            AddonManagerUpdateStopped"
    and pres: "\<And>k. addonHasCondition w' ns k AddonManagerUpdateStopped \<Longrightarrow>
          addonHasCondition (snd (leaseController_addons now ns addons w')) ns k
            AddonManagerUpdateStopped"
    by (simp_all only: simp_thms)
  show ?case
    unfolding unfold
  proof (intro conjI ballI allI impI)
    show "fst (leaseController_addons now ns addons w') = None" by (rule e)
  next
    fix y assume "y \<in> set (x # addons)"
    then consider "y = x" | "y \<in> set addons" by auto
    then show "addonHasCondition (snd (leaseController_addons now ns addons w')) ns (Name y)
            AddonManagerUpdateStopped"
    proof cases
      case 1
      with got pres show ?thesis by simp
    next
      case 2
      then show ?thesis by (rule all)
    qed
  next
    fix k assume "addonHasCondition w ns k AddonManagerUpdateStopped"
    then have "addonHasCondition w' ns k AddonManagerUpdateStopped" by (rule keep)
    then show "addonHasCondition (snd (leaseController_addons now ns addons w')) ns k
            AddonManagerUpdateStopped" by (rule pres)
  qed
qed

lemma gracePeriod_default: "gracePeriod 0 = 5 * 60 * Second"
  by (simp add: gracePeriod_def leaseDurationTimes_def)

lemma gracePeriod_in_range:
  assumes "lds \<noteq> 0" and "- 429496729 \<le> sint lds" and "sint lds \<le> 429496729"
  shows "gracePeriod lds = 5 * sint lds * Second"
proof -
  have "sint (5 * lds) = signed_take_bit 31 (sint (5 :: 32 word) * sint lds)"
    by (simp add: sint_word_ariths)
  also have "sint (5 :: 32 word) = 5" by simp
  also have "signed_take_bit 31 (5 * sint lds) = 5 * sint lds"
    using assms(2,3) by (intro signed_take_bit_int_eq_self) simp_all
  finally show ?thesis
    using assms(1) by (simp add: gracePeriod_def leaseDurationTimes_def)
qed

lemma leaseController_cluster_absent:
  assumes "lister_get (leaseCache w) (Name cluster) ''addon-lease'' = Inl NotFound"
  shows "actions (snd (leaseController_cluster now cluster w)) =
     actions w @
     [CreateLease (Name cluster)
        \<lparr>Name = ''addon-lease'',
         Namespace = Name cluster,
         Labels = [''addon.open-cluster-management.io/cluster-name'' \<mapsto> Name cluster],
         Annotations = Map.empty,
         Finalizers = [],
         DeletionTimestamp = None,
         ResourceVersion = 0,
         HolderIdentity = Some ''addon-lease'',
         RenewTime = Some now\<rparr>]"
  using assms
  by (simp add: leaseController_cluster_def IsNotFound_def leaseCreate_def record_action_def
        Let_def split: prod.splits option.splits)

lemma leaseController_cluster_fresh:
  assumes "lister_get (leaseCache w) (Name cluster) ''addon-lease'' = Inr l"
    and "RenewTime l = Some r"
    and "now < r + gracePeriod (LeaseDurationSeconds cluster)"
  shows "leaseController_cluster now cluster w = (None, w)"
  using assms by (simp add: leaseController_cluster_def)

lemma leaseController_cluster_stale:
  assumes "lister_get (leaseCache w) (Name cluster) ''addon-lease'' = Inr l"
    and "RenewTime l = Some r"
    and "\<not> now < r + gracePeriod (LeaseDurationSeconds cluster)"
  shows "leaseController_cluster now cluster w =
     leaseController_addons now (Name cluster) (addonLister_List w (Name cluster)) w"
  using assms by (simp add: leaseController_cluster_def)

lemmas lease_example_defs =
  hubWithLease_def hubWith_def emptyWorld_def NewAddon_def NewManagedCluster_def
  NewAddonManagerLease_def NewClusterManagementAddOn_def longLeaseCluster_def

text \<open>
  X5.  The body of the loop over the clusters, which a controller built with its cluster
  lister set runs for each cluster listed, at time \<open>now\<close>: if the lease \<^verbatim>\<open>addon-lease\<close>
  of the cluster's namespace is absent, the only write is the creation of that lease with
  \<open>RenewTime = now\<close> and the cluster-name label.  If the lease is present and carries
  a renew time \<open>r\<close>, then with \<open>now < r + gracePeriod\<close> nothing is written, and
  otherwise, provided the API server holds every add-on the lister returns for the
  cluster, the pass ends without error and each of these add-ons is stored with the
  condition \<^verbatim>\<open>Available = Unknown\<close>, reason \<^verbatim>\<open>AddonManagerUpdateStopped\<close>.  The grace
  period is the 32-bit product of five and the lease duration (60 when the duration is
  0), in seconds: it is five times the lease duration when the duration lies between
  -429496729 and 429496729.
\<close>

theorem hub_lease_reconcile:
  "(lister_get (leaseCache w) (Name cluster) ''addon-lease'' = Inl NotFound \<longrightarrow>
      actions (snd (leaseController_cluster now cluster w)) =
        actions w @
        [CreateLease (Name cluster)
           \<lparr>Name = ''addon-lease'',
            Namespace = Name cluster,
            Labels = [''addon.open-cluster-management.io/cluster-name'' \<mapsto> Name cluster],
            Annotations = Map.empty,
            Finalizers = [],
            DeletionTimestamp = None,
            ResourceVersion = 0,
            HolderIdentity = Some ''addon-lease'',
            RenewTime = Some now\<rparr>])
   \<and> (\<forall>l r. lister_get (leaseCache w) (Name cluster) ''addon-lease'' = Inr l
             \<and> RenewTime l = Some r \<longrightarrow>
          (now < r + gracePeriod (LeaseDurationSeconds cluster) \<longrightarrow>
             leaseController_cluster now cluster w = (None, w))
        \<and> (\<not> now < r + gracePeriod (LeaseDurationSeconds cluster)
             \<and> (\<forall>x \<in> set (addonLister_List w (Name cluster)).
                    addonStored w (Name cluster) (Name x)) \<longrightarrow>
             fst (leaseController_cluster now cluster w) = None
             \<and> (\<forall>x \<in> set (addonLister_List w (Name cluster)).
                    addonHasCondition (snd (leaseController_cluster now cluster w))
                      (Name cluster) (Name x) AddonManagerUpdateStopped)))
   \<and> gracePeriod 0 = 5 * 60 * Second
   \<and> (LeaseDurationSeconds cluster \<noteq> 0
        \<and> - 429496729 \<le> sint (LeaseDurationSeconds cluster)
        \<and> sint (LeaseDurationSeconds cluster) \<le> 429496729 \<longrightarrow>
        gracePeriod (LeaseDurationSeconds cluster) =
          5 * sint (LeaseDurationSeconds cluster) * Second)"
proof (intro conjI allI impI ballI)
  assume "lister_get (leaseCache w) (Name cluster) ''addon-lease'' = Inl NotFound"
  then show "actions (snd (leaseController_cluster now cluster w)) =
        actions w @
        [CreateLease (Name cluster)
           \<lparr>Name = ''addon-lease'',
            Namespace = Name cluster,
            Labels = [''addon.open-cluster-management.io/cluster-name'' \<mapsto> Name cluster],
            Annotations = Map.empty,
            Finalizers = [],
            DeletionTimestamp = None,
            ResourceVersion = 0,
            HolderIdentity = Some ''addon-lease'',
            RenewTime = Some now\<rparr>]"
    by (rule leaseController_cluster_absent)
next
  fix l r
  assume "lister_get (leaseCache w) (Name cluster) ''addon-lease'' = Inr l \<and> RenewTime l = Some r"
    and "now < r + gracePeriod (LeaseDurationSeconds cluster)"
  then show "leaseController_cluster now cluster w = (None, w)"
    by (simp add: leaseController_cluster_fresh)
next
  fix l r
  assume lease: "lister_get (leaseCache w) (Name cluster) ''addon-lease'' = Inr l \<and> RenewTime l = Some r"
    and stale: "\<not> now < r + gracePeriod (LeaseDurationSeconds cluster)
             \<and> (\<forall>x \<in> set (addonLister_List w (Name cluster)).
                    addonStored w (Name cluster) (Name x))"
  from lease stale have eq: "leaseController_cluster now cluster w =
     leaseController_addons now (Name cluster) (addonLister_List w (Name cluster)) w"
    by (simp add: leaseController_cluster_stale)
  from stale have "\<forall>x \<in> set (addonLister_List w (Name cluster)). addonStored w (Name cluster) (Name x)"
    by simp
  note all = leaseController_addons_all [OF this, of now]
  from all show "fst (leaseController_cluster now cluster w) = None"
    unfolding eq by (rule conjunct1)
  fix x assume "x \<in> set (addonLister_List w (Name cluster))"
  with all show "addonHasCondition (snd (leaseController_cluster now cluster w))
                      (Name cluster) (Name x) AddonManagerUpdateStopped"
    unfolding eq by simp
next
  show "gracePeriod 0 = 5 * 60 * Second" by (rule gracePeriod_default)
next
  assume "LeaseDurationSeconds cluster \<noteq> 0
        \<and> - 429496729 \<le> sint (LeaseDurationSeconds cluster)
        \<and> sint (LeaseDurationSeconds cluster) \<le> 429496729"
  then show "gracePeriod (LeaseDurationSeconds cluster) =
          5 * sint (LeaseDurationSeconds cluster) * Second"
    by (simp add: gracePeriod_in_range)
qed

theorem hub_lease_reconcile_witness:
  "actions (snd (leaseController_cluster 1800 (NewManagedCluster ''cluster1'')
                   (hubWith (NewAddon ''cluster1'' ''helloworld'')))) =
     [CreateLease ''cluster1''
        \<lparr>Name = ''addon-lease'',
         Namespace = ''cluster1'',
         Labels = [''addon.open-cluster-management.io/cluster-name'' \<mapsto> ''cluster1''],
         Annotations = Map.empty,
         Finalizers = [],
         DeletionTimestamp = None,
         ResourceVersion = 0,
         HolderIdentity = Some ''addon-lease'',
         RenewTime = Some 1800\<rparr>]
   \<and> leaseController_cluster 1800 (NewManagedCluster ''cluster1'') (hubWithLease 1700) =
       (None, hubWithLease 1700)
   \<and> fst (leaseController_cluster (400 * Second) (NewManagedCluster ''cluster1'')
              (hubWithLease 1700)) = None
   \<and> addonHasCondition
         (snd (leaseController_cluster (400 * Second) (NewManagedCluster ''cluster1'')
                 (hubWithLease 1700)))
         ''cluster1'' ''helloworld'' AddonManagerUpdateStopped
   \<and> gracePeriod (LeaseDurationSeconds
        ((NewManagedCluster ''cluster1'')\<lparr>LeaseDurationSeconds := 120\<rparr>)) = 600 * Second"
proof -
  let ?cl = "NewManagedCluster ''cluster1''"
  let ?cl120 = "(NewManagedCluster ''cluster1'')\<lparr>LeaseDurationSeconds := 120\<rparr>"
  let ?w0 = "hubWith (NewAddon ''cluster1'' ''helloworld'')"
  let ?w1 = "hubWithLease 1700"
  let ?l = "NewAddonManagerLease ''cluster1'' (Some 1700)"
  have absent: "lister_get (leaseCache ?w0) (Name ?cl) ''addon-lease'' = Inl NotFound"
    by (simp add: lease_example_defs lister_get_def)
  have present: "lister_get (leaseCache ?w1) (Name ?cl) ''addon-lease'' = Inr ?l \<and> RenewTime ?l = Some 1700"
    by (simp add: lease_example_defs lister_get_def)
  have grace: "gracePeriod (LeaseDurationSeconds ?cl) = 300 * Second"
    by (simp add: NewManagedCluster_def gracePeriod_def leaseDurationTimes_def)
  have fresh: "(1800 :: int) < 1700 + gracePeriod (LeaseDurationSeconds ?cl)"
    unfolding grace by (simp add: Second_def)
  have stale: "\<not> 400 * Second < 1700 + gracePeriod (LeaseDurationSeconds ?cl)"
    unfolding grace by (simp add: Second_def)
  have name: "Name ?cl = ''cluster1''"
    by (simp add: NewManagedCluster_def)
  have listed: "addonLister_List ?w1 ''cluster1'' = [NewAddon ''cluster1'' ''helloworld'']"
    by (simp add: addonLister_List_def lease_example_defs)
  have stored: "\<forall>x \<in> set (addonLister_List ?w1 (Name ?cl)). addonStored ?w1 (Name ?cl) (Name x)"
    unfolding name listed by (simp add: addonStored_def lease_example_defs)
  have range: "LeaseDurationSeconds ?cl120 \<noteq> 0
        \<and> - 429496729 \<le> sint (LeaseDurationSeconds ?cl120)
        \<and> sint (LeaseDurationSeconds ?cl120) \<le> 429496729"
    by (simp add: NewManagedCluster_def)
  from hub_lease_reconcile [of ?w0 ?cl 1800] absent
  have 1: "actions (snd (leaseController_cluster 1800 ?cl ?w0)) =
     actions ?w0 @ [CreateLease ''cluster1''
        \<lparr>Name = ''addon-lease'',
         Namespace = ''cluster1'',
         Labels = [''addon.open-cluster-management.io/cluster-name'' \<mapsto> ''cluster1''],
         Annotations = Map.empty,
         Finalizers = [],
         DeletionTimestamp = None,
         ResourceVersion = 0,
         HolderIdentity = Some ''addon-lease'',
         RenewTime = Some 1800\<rparr>]"
    unfolding name by blast
  from hub_lease_reconcile [of ?w1 ?cl 1800] present fresh
  have 2: "leaseController_cluster 1800 ?cl ?w1 = (None, ?w1)"
    by blast
  from hub_lease_reconcile [of ?w1 ?cl "400 * Second"] present stale stored
  have 3: "fst (leaseController_cluster (400 * Second) ?cl ?w1) = None
      \<and> (\<forall>x \<in> set (addonLister_List ?w1 (Name ?cl)).
            addonHasCondition (snd (leaseController_cluster (400 * Second) ?cl ?w1))
              (Name ?cl) (Name x) AddonManagerUpdateStopped)"
    by blast
  from hub_lease_reconcile [of ?w1 ?cl120 1800] range
  have 4: "gracePeriod (LeaseDurationSeconds ?cl120) = 5 * sint (LeaseDurationSeconds ?cl120) * Second"
    by blast
  have 5: "sint (LeaseDurationSeconds ?cl120) = 120"
    by (simp add: NewManagedCluster_def)
  have 6: "actions ?w0 = []"
    by (simp add: lease_example_defs)
  have 7: "addonHasCondition (snd (leaseController_cluster (400 * Second) ?cl ?w1))
              ''cluster1'' ''helloworld'' AddonManagerUpdateStopped"
    using 3 unfolding name listed by (simp add: NewAddon_def)
  from 1 2 3 4 5 6 7 show ?thesis by simp
qed

text \<open>
  Claim C6 asks, for every cluster, for the lease to be created when it is absent, and for
  the grace period of five times the lease duration to decide otherwise.
  \<^verbatim>\<open>NewAddonLeaseController\<close> leaves \<^verbatim>\<open>clusterLister\<close> nil, so that \<^verbatim>\<open>sync\<close> of the
  controller the manager runs panics at its first statement, whatever the hub holds: for
  \<^verbatim>\<open>cluster1\<close> without a lease no lease is created, where the controller with the
  lister set creates it.  With the lister set two more runs part from the claim.  For a
  lease duration of 429496730 seconds the 32-bit product wraps around to a negative
  number: the lease was renewed at this instant, and the add-on's condition is written
  all the same.  And a lease without renew time makes the call of \<^verbatim>\<open>Add\<close> panic.
\<close>

theorem lease_controller_without_cluster_lister:
  "leaseController_sync (NewAddonLeaseController clusterInformer) now w =
     (Some NilPointerDereference, w)
   \<and> clusterCache (hubWith (NewAddon ''cluster1'' ''helloworld'')) = [NewManagedCluster ''cluster1'']
   \<and> lister_get (leaseCache (hubWith (NewAddon ''cluster1'' ''helloworld'')))
         ''cluster1'' ''addon-lease'' = Inl NotFound
   \<and> leaseController_sync (NewAddonLeaseController clusterCache) 1800
         (hubWith (NewAddon ''cluster1'' ''helloworld'')) =
       (Some NilPointerDereference, hubWith (NewAddon ''cluster1'' ''helloworld''))
   \<and> actions (hubWith (NewAddon ''cluster1'' ''helloworld'')) = []
   \<and> actions (snd (leaseController_sync testLeaseController 1800
                      (hubWith (NewAddon ''cluster1'' ''helloworld'')))) =
       [CreateLease ''cluster1''
          \<lparr>Name = ''addon-lease'',
           Namespace = ''cluster1'',
           Labels = [''addon.open-cluster-management.io/cluster-name'' \<mapsto> ''cluster1''],
           Annotations = Map.empty,
           Finalizers = [],
           DeletionTimestamp = None,
           ResourceVersion = 0,
           HolderIdentity = Some ''addon-lease'',
           RenewTime = Some 1800\<rparr>]
   \<and> sint (LeaseDurationSeconds longLeaseCluster) = 429496730
   \<and> lister_get (leaseCache (hubWithLease 1700)) (Name longLeaseCluster) ''addon-lease'' =
       Inr (NewAddonManagerLease ''cluster1'' (Some 1700))
   \<and> (1700 :: int) < 1700 + 5 * sint (LeaseDurationSeconds longLeaseCluster) * Second
   \<and> gracePeriod (LeaseDurationSeconds longLeaseCluster) = - 2147483646 * Second
   \<and> actions (snd (leaseController_cluster 1700 longLeaseCluster (hubWithLease 1700))) =
     [UpdateAddonStatusAction ''cluster1''
        ((NewAddon ''cluster1'' ''helloworld'')
           \<lparr>AddonStatus :=
              \<lparr>Conditions = [AddonManagerUpdateStopped\<lparr>LastTransitionTime := 1700\<rparr>],
               RelatedObjects = []\<rparr>\<rparr>)]
   \<and> leaseController_cluster 1800 (NewManagedCluster ''cluster1'')
         ((hubWith (NewAddon ''cluster1'' ''helloworld''))
            \<lparr>leaseCache := [NewAddonManagerLease ''cluster1'' None]\<rparr>) =
       (Some NilPointerDereference,
        (hubWith (NewAddon ''cluster1'' ''helloworld''))
            \<lparr>leaseCache := [NewAddonManagerLease ''cluster1'' None]\<rparr>)"
proof -
  let ?v = "hubWith (NewAddon ''cluster1'' ''helloworld'')"
  let ?cl = "NewManagedCluster ''cluster1''"
  have nil: "leaseController_sync (NewAddonLeaseController ci) t u = (Some NilPointerDereference, u)"
    for ci t u
    by (simp add: leaseController_sync_def NewAddonLeaseController_def)
  have cache: "clusterCache ?v = [?cl]"
    by (simp add: hubWith_def emptyWorld_def)
  have absent: "lister_get (leaseCache ?v) ''cluster1'' ''addon-lease'' = Inl NotFound"
    by (simp add: lister_get_def hubWith_def emptyWorld_def)
  have none: "actions ?v = []"
    by (simp add: hubWith_def emptyWorld_def)
  have nm: "Name ?cl = ''cluster1''"
    by (simp add: NewManagedCluster_def)
  have created: "actions (snd (leaseController_cluster 1800 ?cl ?v)) =
       [CreateLease ''cluster1''
          \<lparr>Name = ''addon-lease'',
           Namespace = ''cluster1'',
           Labels = [''addon.open-cluster-management.io/cluster-name'' \<mapsto> ''cluster1''],
           Annotations = Map.empty,
           Finalizers = [],
           DeletionTimestamp = None,
           ResourceVersion = 0,
           HolderIdentity = Some ''addon-lease'',
           RenewTime = Some 1800\<rparr>]"
    using leaseController_cluster_absent [of ?v ?cl 1800] absent
    unfolding nm none by simp
  have ok: "fst (leaseController_cluster 1800 ?cl ?v) = None"
    using absent
    by (simp add: leaseController_cluster_def nm IsNotFound_def leaseCreate_def Let_def
          record_action_def err_of_def hubWith_def emptyWorld_def split: prod.splits)
  have test: "actions (snd (leaseController_sync testLeaseController 1800 ?v)) =
      actions (snd (leaseController_cluster 1800 ?cl ?v))"
  proof -
    obtain e u where r: "leaseController_cluster 1800 ?cl ?v = (e, u)"
      by (cases "leaseController_cluster 1800 ?cl ?v")
    with ok have "e = None" by simp
    with r show ?thesis
      by (simp add: leaseController_sync_def testLeaseController_def cache)
  qed
  have s: "sint (LeaseDurationSeconds longLeaseCluster) = 429496730"
    by (simp add: longLeaseCluster_def NewManagedCluster_def)
  have g: "gracePeriod (LeaseDurationSeconds longLeaseCluster) = - 2147483646 * Second"
    by (simp add: longLeaseCluster_def NewManagedCluster_def gracePeriod_def leaseDurationTimes_def)
  have l: "lister_get (leaseCache (hubWithLease 1700)) (Name longLeaseCluster) ''addon-lease'' =
       Inr (NewAddonManagerLease ''cluster1'' (Some 1700))"
    by (simp add: lease_example_defs lister_get_def)
  have st: "addonStore (hubWithLease 1700) (''cluster1'', ''helloworld'') =
      Some (NewAddon ''cluster1'' ''helloworld'')"
    "Name (NewAddon ''cluster1'' ''helloworld'') = ''helloworld''"
    by (simp_all add: lease_example_defs)
  have u: "snd (snd (fst (UpdateAddonStatus worldAddonClient ''cluster1'' ''helloworld''
        [UpdateAddonConditionFn 1700 AddonManagerUpdateStopped] (hubWithLease 1700)))) = None
      \<and> actions (snd (UpdateAddonStatus worldAddonClient ''cluster1'' ''helloworld''
        [UpdateAddonConditionFn 1700 AddonManagerUpdateStopped] (hubWithLease 1700))) =
        [UpdateAddonStatusAction ''cluster1''
            ((NewAddon ''cluster1'' ''helloworld'')
               \<lparr>AddonStatus :=
                  \<lparr>Conditions = [AddonManagerUpdateStopped\<lparr>LastTransitionTime := 1700\<rparr>],
                   RelatedObjects = []\<rparr>\<rparr>)]"
    unfolding UpdateAddonStatus_world [OF st]
    by (simp add: lease_example_defs AddonManagerUpdateStopped_def Let_def)
  have nml: "Name longLeaseCluster = ''cluster1''"
    by (simp add: lease_example_defs)
  have listed: "addonLister_List (hubWithLease 1700) ''cluster1'' =
      [NewAddon ''cluster1'' ''helloworld'']"
    by (simp add: addonLister_List_def lease_example_defs)
  have rt: "RenewTime (NewAddonManagerLease ''cluster1'' (Some 1700)) = Some 1700"
    by (simp add: NewAddonManagerLease_def)
  have stale: "\<not> (1700 :: int) < 1700 + gracePeriod (LeaseDurationSeconds longLeaseCluster)"
    unfolding g by (simp add: Second_def)
  have "leaseController_cluster 1700 longLeaseCluster (hubWithLease 1700) =
      leaseController_addons 1700 ''cluster1'' [NewAddon ''cluster1'' ''helloworld''] (hubWithLease 1700)"
    using leaseController_cluster_stale [OF l rt stale] unfolding nml listed .
  then have a: "actions (snd (leaseController_cluster 1700 longLeaseCluster (hubWithLease 1700))) =
     [UpdateAddonStatusAction ''cluster1''
        ((NewAddon ''cluster1'' ''helloworld'')
           \<lparr>AddonStatus :=
              \<lparr>Conditions = [AddonManagerUpdateStopped\<lparr>LastTransitionTime := 1700\<rparr>],
               RelatedObjects = []\<rparr>\<rparr>)]"
    using u by (simp add: NewAddon_def split: prod.splits option.splits)
  have panic: "leaseController_cluster 1800 ?cl
         (?v\<lparr>leaseCache := [NewAddonManagerLease ''cluster1'' None]\<rparr>) =
       (Some NilPointerDereference, ?v\<lparr>leaseCache := [NewAddonManagerLease ''cluster1'' None]\<rparr>)"
    by (simp add: leaseController_cluster_def lister_get_def nm NewAddonManagerLease_def)
  have wrap: "(1700 :: int) < 1700 + 5 * sint (LeaseDurationSeconds longLeaseCluster) * Second"
    unfolding s by (simp add: Second_def)
  show ?thesis
    unfolding test created
    using nil cache absent none s l wrap g a panic
    by (intro conjI) (simp_all only:)
qed

section \<open>The add-on lease controller of the spoke agent\<close>

text \<open>
  Claim C5 asks for \<^verbatim>\<open>Degraded = False\<close> as soon as one lease labelled for the add-on
  is within the grace period.  \<^verbatim>\<open>checkAddonLeases\<close> calls \<^verbatim>\<open>Add\<close> on the renew time of
  each lease it passes, and a lease without renew time makes that call panic: with such a
  lease listed before one renewed a second ago, the reconcile ends in the panic and no
  condition is written.
\<close>

theorem lease_without_renew_time_panics:
  "getLeaseByAddonName spokeLeaseAgent spokeWithLeases ''helloworld'' =
     Inr [NewAddonLease ''ns1'' ''open-cluster-management-addon-helloworld'' ''helloworld'' None,
          NewAddonLease ''ns2'' ''open-cluster-management-addon-helloworld'' ''helloworld''
            (Some (100 * Second))]
   \<and> 101 * Second < 100 * Second + 5 * 60 * Second
   \<and> checkAddonLeases (101 * Second)
         [NewAddonLease ''ns1'' ''open-cluster-management-addon-helloworld'' ''helloworld'' None,
          NewAddonLease ''ns2'' ''open-cluster-management-addon-helloworld'' ''helloworld''
            (Some (100 * Second))] =
       Inl NilPointerDereference
   \<and> addonLeaseController_sync spokeLeaseAgent (101 * Second) spokeWithLeases =
       (Some NilPointerDereference, spokeWithLeases)"
proof -
  let ?l1 = "NewAddonLease ''ns1'' ''open-cluster-management-addon-helloworld'' ''helloworld'' None"
  let ?l2 = "NewAddonLease ''ns2'' ''open-cluster-management-addon-helloworld'' ''helloworld''
            (Some (100 * Second))"
  have leases: "getLeaseByAddonName spokeLeaseAgent spokeWithLeases ''helloworld'' = Inr [?l1, ?l2]"
    by (simp add: getLeaseByAddonName_def leaseLister_List_def spokeLeaseAgent_def
          parseEquality_def spokeWithLeases_def NewAddonLease_def)
  have check: "checkAddonLeases (101 * Second) [?l1, ?l2] = Inl NilPointerDereference"
    by (simp add: NewAddonLease_def)
  have listed: "addonLister_List spokeWithLeases (lease_clusterName spokeLeaseAgent) =
      [NewAddon ''cluster1'' ''helloworld'']"
    by (simp add: addonLister_List_def spokeLeaseAgent_def spokeWithLeases_def hubWith_def
          emptyWorld_def NewAddon_def)
  have name: "Name (NewAddon ''cluster1'' ''helloworld'') = ''helloworld''"
    by (simp add: NewAddon_def)
  have sync: "addonLeaseController_sync spokeLeaseAgent (101 * Second) spokeWithLeases =
       (Some NilPointerDereference, spokeWithLeases)"
    by (simp add: addonLeaseController_sync_def listed name leases NewAddonLease_def)
  from leases check sync show ?thesis
    by (simp add: Second_def)
qed

lemma checkAddonLeases_total:
  assumes "\<forall>l \<in> set leases. RenewTime l \<noteq> None"
  shows "checkAddonLeases now leases =
     Inr (if \<exists>l \<in> set leases. \<exists>r. RenewTime l = Some r \<and> now < r + 5 * 60 * Second
          then ManagedClusterLeaseUpdated else AddonLeaseUpdateStopped)"
  using assms
proof (induction leases)
  case Nil
  show ?case by simp
next
  case (Cons l leases)
  then obtain r where r: "RenewTime l = Some r" by auto
  from Cons have IH: "checkAddonLeases now leases =
     Inr (if \<exists>l \<in> set leases. \<exists>r. RenewTime l = Some r \<and> now < r + 5 * 60 * Second
          then ManagedClusterLeaseUpdated else AddonLeaseUpdateStopped)"
    by simp
  show ?case
  proof (cases "now < r + 5 * 60 * Second")
    case True
    with r show ?thesis
      by (auto simp: addonLeaseDurationTimes_def AddonLeaseDurationSeconds_def)
  next
    case False
    with r IH show ?thesis
      by (auto simp: addonLeaseDurationTimes_def AddonLeaseDurationSeconds_def)
  qed
qed

lemma leasesLabelledFor_cong:
  "leaseCache w' = leaseCache w \<Longrightarrow> leasesLabelledFor w' n = leasesLabelledFor w n"
  by (simp add: leasesLabelledFor_def)

lemma getLeaseByAddonName_parsed:
  assumes "Parse c (''open-cluster-management-addon='' @ n) = Inr (addonLeaseSelector n)"
  shows "getLeaseByAddonName c w n = Inr (leasesLabelledFor w n)"
  using assms by (simp add: getLeaseByAddonName_def leaseLister_List_def leasesLabelledFor_def)

lemma getLeaseByAddonName_refused:
  assumes "Parse c (''open-cluster-management-addon='' @ n) = Inl e"
  shows "getLeaseByAddonName c w n = Inl NilPointerDereference"
  using assms by (simp add: getLeaseByAddonName_def leaseLister_List_def)

lemma parseEquality_addon:
  "parseEquality (''open-cluster-management-addon='' @ n) = Inr (addonLeaseSelector n)"
  by (simp add: parseEquality_def addonLeaseSelector_def fun_eq_iff)

lemma addonLeaseController_addons_step:
  assumes "addonStored w (lease_clusterName c) (Name x)"
    and "\<forall>l \<in> set (leasesLabelledFor w (Name x)). RenewTime l \<noteq> None"
    and "Parse c (''open-cluster-management-addon='' @ Name x) = Inr (addonLeaseSelector (Name x))"
  shows "addonLeaseController_addons c now (x # addons) w =
           addonLeaseController_addons c now addons
             (snd (UpdateAddonStatus worldAddonClient (lease_clusterName c) (Name x)
                     [UpdateAddonConditionFn now
                        (specDegradedCondition now (leasesLabelledFor w (Name x)))] w))"
proof -
  let ?ns = "lease_clusterName c"
  let ?cond = "specDegradedCondition now (leasesLabelledFor w (Name x))"
  have l: "getLeaseByAddonName c w (Name x) = Inr (leasesLabelledFor w (Name x))"
    by (rule getLeaseByAddonName_parsed [OF assms(3)])
  have c: "(if length (leasesLabelledFor w (Name x)) = 0 then Inr AddonLeaseNotFound
            else checkAddonLeases now (leasesLabelledFor w (Name x))) = Inr ?cond"
    using checkAddonLeases_total [OF assms(2), of now]
    by (simp add: specDegradedCondition_def)
  obtain st upd err w' where r: "UpdateAddonStatus worldAddonClient ?ns (Name x)
      [UpdateAddonConditionFn now ?cond] w = ((st, upd, err), w')"
    by (metis prod.exhaust)
  with UpdateAddonStatus_world_step(1) [OF assms(1), of now ?cond]
  have "err = None" by simp
  with r c l show ?thesis by simp
qed

lemma addonLeaseController_addons_all:
  assumes "\<forall>x \<in> set addons. addonStored w ns (Name x)"
    and "\<forall>x \<in> set addons. \<forall>l \<in> set (leasesLabelledFor w (Name x)). RenewTime l \<noteq> None"
    and "\<forall>x \<in> set addons.
           Parse c (''open-cluster-management-addon='' @ Name x) = Inr (addonLeaseSelector (Name x))"
    and "ns = lease_clusterName c"
  shows "fst (addonLeaseController_addons c now addons w) = None
       \<and> (\<forall>x \<in> set addons.
             addonHasCondition (snd (addonLeaseController_addons c now addons w)) ns (Name x)
               (specDegradedCondition now (leasesLabelledFor w (Name x))))
       \<and> (\<forall>k. addonHasCondition w ns k (specDegradedCondition now (leasesLabelledFor w k)) \<longrightarrow>
             addonHasCondition (snd (addonLeaseController_addons c now addons w)) ns k
               (specDegradedCondition now (leasesLabelledFor w k)))
       \<and> leaseCache (snd (addonLeaseController_addons c now addons w)) = leaseCache w"
  using assms
proof (induction addons arbitrary: w)
  case Nil
  show ?case by simp
next
  case (Cons x addons)
  define cond where "cond k = specDegradedCondition now (leasesLabelledFor w k)" for k
  define w' where "w' = snd (UpdateAddonStatus worldAddonClient ns (Name x)
              [UpdateAddonConditionFn now (cond (Name x))] w)"
  from Cons.prems have here: "addonStored w ns (Name x)"
    and leases: "\<forall>l \<in> set (leasesLabelledFor w (Name x)). RenewTime l \<noteq> None"
    and parse: "Parse c (''open-cluster-management-addon='' @ Name x) =
                  Inr (addonLeaseSelector (Name x))"
    and ns: "ns = lease_clusterName c"
    by simp_all
  have unfold: "addonLeaseController_addons c now (x # addons) w =
      addonLeaseController_addons c now addons w'"
    unfolding w'_def cond_def ns
    by (rule addonLeaseController_addons_step [OF here [unfolded ns] leases parse])
  have lc: "leaseCache w' = leaseCache w"
    unfolding w'_def by (rule UpdateAddonStatus_world_step(5) [OF here])
  have same: "leasesLabelledFor w' k = leasesLabelledFor w k" for k
    by (rule leasesLabelledFor_cong [OF lc])
  have got: "addonHasCondition w' ns (Name x) (cond (Name x))"
    unfolding w'_def by (rule UpdateAddonStatus_world_step(2) [OF here])
  have keep: "addonHasCondition w' ns k (cond k)" if "addonHasCondition w ns k (cond k)" for k
  proof (cases "k = Name x")
    case True
    with got show ?thesis by simp
  next
    case False
    have "addonStore w' (ns, k) = addonStore w (ns, k)"
      unfolding w'_def by (rule UpdateAddonStatus_world_step(3) [OF here False])
    from addonHasCondition_cong [OF this] that show ?thesis by simp
  qed
  have stored': "\<forall>y \<in> set addons. addonStored w' ns (Name y)"
  proof
    fix y assume "y \<in> set addons"
    with Cons.prems have "addonStored w ns (Name y)" by simp
    then show "addonStored w' ns (Name y)"
      unfolding w'_def by (rule step_keeps_stored [OF here])
  qed
  have leases': "\<forall>y \<in> set addons. \<forall>l \<in> set (leasesLabelledFor w' (Name y)). RenewTime l \<noteq> None"
    using Cons.prems(2) by (simp add: same)
  have parse': "\<forall>y \<in> set addons.
      Parse c (''open-cluster-management-addon='' @ Name y) = Inr (addonLeaseSelector (Name y))"
    using Cons.prems(3) by simp
  note IH = Cons.IH [OF stored' leases' parse' ns, unfolded same, folded cond_def]
  from IH have e: "fst (addonLeaseController_addons c now addons w') = None"
    and all: "\<And>y. y \<in> set addons \<Longrightarrow>
          addonHasCondition (snd (addonLeaseController_addons c now addons w')) ns (Name y)
            (cond (Name y))"
    and pres: "\<And>k. addonHasCondition w' ns k (cond k) \<Longrightarrow>
          addonHasCondition (snd (addonLeaseController_addons c now addons w')) ns k (cond k)"
    and lc': "leaseCache (snd (addonLeaseController_addons c now addons w')) = leaseCache w'"
    by (simp_all only: simp_thms)
  show ?case
    unfolding unfold cond_def [symmetric]
  proof (intro conjI ballI allI impI)
    show "fst (addonLeaseController_addons c now addons w') = None" by (rule e)
  next
    fix y assume "y \<in> set (x # addons)"
    then consider "y = x" | "y \<in> set addons" by auto
    then show "addonHasCondition (snd (addonLeaseController_addons c now addons w')) ns (Name y)
            (cond (Name y))"
    proof cases
      case 1
      show ?thesis unfolding 1 by (rule pres [OF got])
    next
      case 2
      then show ?thesis by (rule all)
    qed
  next
    fix k assume "addonHasCondition w ns k (cond k)"
    then have "addonHasCondition w' ns k (cond k)" by (rule keep)
    then show "addonHasCondition (snd (addonLeaseController_addons c now addons w')) ns k (cond k)"
      by (rule pres)
  next
    show "leaseCache (snd (addonLeaseController_addons c now addons w')) = leaseCache w"
      using lc' lc by simp
  qed
qed

text \<open>
  X4.  In a reconcile of the add-on lease controller where the API server holds every
  add-on the lister returns, \<^verbatim>\<open>labels.Parse\<close> reads the selector of each of them as
  the selector of the leases labelled for it, and every such lease carries a renew time,
  the pass ends without error and every such add-on is stored with the condition of
  section 4.7: \<^verbatim>\<open>Degraded = True\<close>, reason \<^verbatim>\<open>AddonLeaseNotFound\<close>, without a lease;
  \<^verbatim>\<open>Degraded = False\<close>, reason \<^verbatim>\<open>ManagedClusterLeaseUpdated\<close>, when some lease was
  renewed less than five times sixty seconds ago; \<^verbatim>\<open>Degraded = True\<close>, reason
  \<^verbatim>\<open>AddonLeaseUpdateStopped\<close>, otherwise.  Where \<^verbatim>\<open>labels.Parse\<close> refuses the
  selector of the first add-on listed, the reconcile ends in the panic of the lister and
  nothing is written.
\<close>

theorem addon_lease_conditions:
  "((\<forall>x \<in> set (addonLister_List w (lease_clusterName c)).
        addonStored w (lease_clusterName c) (Name x)
        \<and> Parse c (''open-cluster-management-addon='' @ Name x) = Inr (addonLeaseSelector (Name x))
        \<and> (\<forall>l \<in> set (leasesLabelledFor w (Name x)). RenewTime l \<noteq> None)) \<longrightarrow>
      fst (addonLeaseController_sync c now w) = None
      \<and> (\<forall>x \<in> set (addonLister_List w (lease_clusterName c)).
             addonHasCondition (snd (addonLeaseController_sync c now w)) (lease_clusterName c) (Name x)
               (specDegradedCondition now (leasesLabelledFor w (Name x)))))
   \<and> (\<forall>x addons e.
         addonLister_List w (lease_clusterName c) = x # addons
         \<and> Parse c (''open-cluster-management-addon='' @ Name x) = Inl e \<longrightarrow>
         addonLeaseController_sync c now w = (Some NilPointerDereference, w))"
proof (intro conjI allI impI)
  assume a: "\<forall>x \<in> set (addonLister_List w (lease_clusterName c)).
        addonStored w (lease_clusterName c) (Name x)
        \<and> Parse c (''open-cluster-management-addon='' @ Name x) = Inr (addonLeaseSelector (Name x))
        \<and> (\<forall>l \<in> set (leasesLabelledFor w (Name x)). RenewTime l \<noteq> None)"
  then have stored: "\<forall>x \<in> set (addonLister_List w (lease_clusterName c)).
        addonStored w (lease_clusterName c) (Name x)"
    and parse: "\<forall>x \<in> set (addonLister_List w (lease_clusterName c)).
        Parse c (''open-cluster-management-addon='' @ Name x) = Inr (addonLeaseSelector (Name x))"
    and leases: "\<forall>x \<in> set (addonLister_List w (lease_clusterName c)).
        \<forall>l \<in> set (leasesLabelledFor w (Name x)). RenewTime l \<noteq> None"
    by simp_all
  note all = addonLeaseController_addons_all [OF stored leases parse refl, of now]
  from all show "fst (addonLeaseController_sync c now w) = None"
    unfolding addonLeaseController_sync_def by (rule conjunct1)
  from all [THEN conjunct2, THEN conjunct1]
  show "\<forall>x \<in> set (addonLister_List w (lease_clusterName c)).
             addonHasCondition (snd (addonLeaseController_sync c now w)) (lease_clusterName c) (Name x)
               (specDegradedCondition now (leasesLabelledFor w (Name x)))"
    unfolding addonLeaseController_sync_def .
next
  fix x addons e
  assume "addonLister_List w (lease_clusterName c) = x # addons
         \<and> Parse c (''open-cluster-management-addon='' @ Name x) = Inl e"
  then have l: "addonLister_List w (lease_clusterName c) = x # addons"
    and p: "Parse c (''open-cluster-management-addon='' @ Name x) = Inl e"
    by simp_all
  show "addonLeaseController_sync c now w = (Some NilPointerDereference, w)"
    by (simp add: addonLeaseController_sync_def l getLeaseByAddonName_refused [OF p])
qed

theorem addon_lease_conditions_witness:
  "fst (addonLeaseController_sync spokeLeaseAgent (101 * Second)
          ((hubWith (NewAddon ''cluster1'' ''helloworld''))
             \<lparr>leaseCache := [NewAddonLease ''ns2'' ''open-cluster-management-addon-helloworld''
                               ''helloworld'' (Some (100 * Second))]\<rparr>)) = None
   \<and> addonHasCondition
        (snd (addonLeaseController_sync spokeLeaseAgent (101 * Second)
          ((hubWith (NewAddon ''cluster1'' ''helloworld''))
             \<lparr>leaseCache := [NewAddonLease ''ns2'' ''open-cluster-management-addon-helloworld''
                               ''helloworld'' (Some (100 * Second))]\<rparr>)))
        ''cluster1'' ''helloworld'' ManagedClusterLeaseUpdated
   \<and> addonHasCondition
        (snd (addonLeaseController_sync spokeLeaseAgent (101 * Second)
               (hubWith (NewAddon ''cluster1'' ''helloworld''))))
        ''cluster1'' ''helloworld'' AddonLeaseNotFound
   \<and> addonLeaseController_sync (spokeLeaseAgent\<lparr>Parse := \<lambda>selector. Inl (Failure ''invalid label value'')\<rparr>)
        (101 * Second) (hubWith (NewAddon ''cluster1'' ''helloworld'')) =
      (Some NilPointerDereference, hubWith (NewAddon ''cluster1'' ''helloworld''))"
proof -
  let ?l = "NewAddonLease ''ns2'' ''open-cluster-management-addon-helloworld''
                               ''helloworld'' (Some (100 * Second))"
  let ?v = "hubWith (NewAddon ''cluster1'' ''helloworld'')"
  let ?u = "?v\<lparr>leaseCache := [?l]\<rparr>"
  let ?c = "spokeLeaseAgent"
  let ?d = "spokeLeaseAgent\<lparr>Parse := \<lambda>selector. Inl (Failure ''invalid label value'')\<rparr>"
  have cn: "lease_clusterName ?c = ''cluster1''" "lease_clusterName ?d = ''cluster1''"
    by (simp_all add: spokeLeaseAgent_def)
  have listed: "addonLister_List ?u ''cluster1'' = [NewAddon ''cluster1'' ''helloworld'']"
      "addonLister_List ?v ''cluster1'' = [NewAddon ''cluster1'' ''helloworld'']"
    by (simp_all add: addonLister_List_def hubWith_def emptyWorld_def NewAddon_def)
  have nm: "Name (NewAddon ''cluster1'' ''helloworld'') = ''helloworld''"
    by (simp add: NewAddon_def)
  have leases: "leasesLabelledFor ?u ''helloworld'' = [?l]"
      "leasesLabelledFor ?v ''helloworld'' = []"
    by (simp_all add: leasesLabelledFor_def addonLeaseSelector_def hubWith_def emptyWorld_def)
       (simp add: NewAddonLease_def)
  have stored: "addonStored ?u ''cluster1'' ''helloworld''" "addonStored ?v ''cluster1'' ''helloworld''"
    by (simp_all add: addonStored_def hubWith_def emptyWorld_def NewAddon_def)
  have parse: "Parse ?c (''open-cluster-management-addon='' @ ''helloworld'') =
      Inr (addonLeaseSelector ''helloworld'')"
    unfolding spokeLeaseAgent_def by (simp only: addon_lease_controller.simps parseEquality_addon)
  have refused: "Parse ?d (''open-cluster-management-addon='' @ ''helloworld'') =
      Inl (Failure ''invalid label value'')"
    by simp
  have renew: "RenewTime ?l \<noteq> None"
    by (simp add: NewAddonLease_def)
  have c1: "specDegradedCondition (101 * Second) [?l] = ManagedClusterLeaseUpdated"
    by (simp add: specDegradedCondition_def NewAddonLease_def Second_def)
  have c0: "specDegradedCondition (101 * Second) [] = AddonLeaseNotFound"
    by (simp add: specDegradedCondition_def)
  have withLease: "fst (addonLeaseController_sync ?c (101 * Second) ?u) = None
      \<and> addonHasCondition (snd (addonLeaseController_sync ?c (101 * Second) ?u))
            ''cluster1'' ''helloworld'' ManagedClusterLeaseUpdated"
    using addon_lease_conditions [of ?u ?c "101 * Second", THEN conjunct1]
      stored(1) parse renew
    unfolding cn listed by (simp add: nm leases c1)
  have without: "addonHasCondition (snd (addonLeaseController_sync ?c (101 * Second) ?v))
            ''cluster1'' ''helloworld'' AddonLeaseNotFound"
    using addon_lease_conditions [of ?v ?c "101 * Second", THEN conjunct1]
      stored(2) parse
    unfolding cn listed by (simp add: nm leases c0)
  have panics: "addonLeaseController_sync ?d (101 * Second) ?v = (Some NilPointerDereference, ?v)"
    using addon_lease_conditions [of ?v ?d "101 * Second", THEN conjunct2, rule_format,
        of "NewAddon ''cluster1'' ''helloworld''" "[]" "Failure ''invalid label value''"]
      refused
    unfolding cn listed by (simp add: nm)
  from withLease without panics show ?thesis
    by simp
qed

end
